theory Spec2Isabelle
  imports Main
begin

section \<open>Common types\<close>

text \<open>
  A Go \<open>error\<close> is only ever tested against \<open>nil\<close> and read through \<open>Error()\<close> in the
  code below, so an error value is represented by its message; a result that may fail is a
  sum with the error on the left.
\<close>

type_synonym error = string

text \<open>\<open>cmp.Or\<close> on two strings: the first argument that is not the zero value.\<close>

definition cmp_Or :: "string \<Rightarrow> string \<Rightarrow> string" where
  "cmp_Or a b = (if a \<noteq> '''' then a else b)"

section \<open>The repository cache\<close>

subsection \<open>Data\<close>

record Repo =
  url :: string
  branch :: string
  commit :: string
  auth :: string

record CacheDir =
  dir :: string
  commitMessage :: string
  hash :: string

record RepoCache =
  rootDir :: string
  cache :: "Repo \<rightharpoonup> CacheDir"
  shaCache :: "Repo \<rightharpoonup> string"

text \<open>
  The entry returned by \<open>loadGitKey\<close>. Its declaration is not part of the sources at hand; the
  fields are the ones \<open>GetSha\<close>, \<open>CheckoutRepo\<close> and \<open>createAuthMethod\<close> read.
\<close>

record gitAuthEntry =
  user :: string
  key :: string
  password :: string
  usingSSH :: bool

datatype AuthMethod =
  PublicKeys string string string
| BasicAuth string string

text \<open>One reference of a remote listing: its name and the hash it points to.\<close>

record Reference =
  refName :: string
  refHash :: string

record CloneOptions =
  URL :: string
  ReferenceName :: string
  SingleBranch :: bool
  Depth :: int
  Auth :: "AuthMethod option"

record CheckoutOptions =
  Hash :: string
  Branch :: string

text \<open>The commit object read back from the head of a clone.\<close>

record CommitObject =
  Message :: string
  commitHash :: string

subsection \<open>The server, the network and the file system\<close>

text \<open>
  The part of the server that the cache reads: the default auth profile of the security
  configuration, \<open>loadGitKey\<close> and \<open>parseGitUrl\<close>. The two functions are defined outside the
  sources at hand and are taken as parameters.
\<close>

record GitServer =
  DefaultGitAuth :: string
  loadGitKey :: "string \<Rightarrow> error + gitAuthEntry"
  parseGitUrl :: "string \<Rightarrow> bool \<Rightarrow> error + (string \<times> string)"

text \<open>
  Everything outside the process: the go-git library talking to the remote, the file system
  and the standard library's path functions. Each operation that touches the outside world
  takes the number of the call, so that two calls with the same arguments may answer
  differently (the remote has moved, a directory has appeared).
\<close>

record GitOutside =
  newPublicKeys :: "string \<Rightarrow> string \<Rightarrow> string \<Rightarrow> error + AuthMethod"
  remoteList :: "nat \<Rightarrow> string \<Rightarrow> AuthMethod option \<Rightarrow> error + Reference list"
  plainClone :: "nat \<Rightarrow> string \<Rightarrow> CloneOptions \<Rightarrow> error option"
  worktree :: "nat \<Rightarrow> string \<Rightarrow> error option"
  checkout :: "nat \<Rightarrow> string \<Rightarrow> CheckoutOptions \<Rightarrow> error option"
  head :: "nat \<Rightarrow> string \<Rightarrow> error + string"
  commitObject :: "nat \<Rightarrow> string \<Rightarrow> string \<Rightarrow> error + CommitObject"
  mkdirTemp :: "nat \<Rightarrow> string \<Rightarrow> string \<Rightarrow> error + string"
  mkdirAll :: "nat \<Rightarrow> string \<Rightarrow> error option"
  notExist :: "nat \<Rightarrow> string \<Rightarrow> bool"
  pathJoin :: "string \<Rightarrow> string \<Rightarrow> string"
  pathBase :: "string \<Rightarrow> string"
  appSrcDir :: string
  quoted :: "string \<Rightarrow> string"

text \<open>What a call did to the outside world, most recent first.\<close>

datatype GitEvent =
  Logged string
| RemoteListed string
| Statted string
| MadeDir string
| Cloned string CloneOptions
| CheckedOut string CheckoutOptions

record GitWorld =
  calls :: nat
  events :: "GitEvent list"

definition emit :: "GitEvent \<Rightarrow> GitWorld \<Rightarrow> GitWorld" where
  "emit e w = w\<lparr>calls := Suc (calls w), events := e # events w\<rparr>"

definition NewBranchReferenceName :: "string \<Rightarrow> string" where
  "NewBranchReferenceName b = ''refs/heads/'' @ b"

subsection \<open>createAuthMethod and latestCommitSHA\<close>

definition createAuthMethod :: "GitServer \<Rightarrow> GitOutside \<Rightarrow> string \<Rightarrow> error + AuthMethod" where
  "createAuthMethod sv out gitAuth =
     (case loadGitKey sv gitAuth of
        Inl err \<Rightarrow> Inl err
      | Inr authEntry \<Rightarrow>
          if length (key authEntry) \<noteq> 0
          then newPublicKeys out (user authEntry) (key authEntry) (password authEntry)
          else Inr (BasicAuth (user authEntry) (password authEntry)))"

text \<open>The loop of \<open>latestCommitSHA\<close> over the listed references.\<close>

fun findBranch :: "GitOutside \<Rightarrow> string \<Rightarrow> string \<Rightarrow> Reference list \<Rightarrow> error + string" where
  "findBranch out b want [] = Inl (''branch '' @ quoted out b @ '' not found'')"
| "findBranch out b want (r # refs) =
     (if refName r = want then Inr (refHash r) else findBranch out b want refs)"

definition latestCommitSHA ::
  "GitOutside \<Rightarrow> GitWorld \<Rightarrow> string \<Rightarrow> string \<Rightarrow> AuthMethod option \<Rightarrow> (error + string) \<times> GitWorld" where
  "latestCommitSHA out w repoURL b a =
     (case remoteList out (calls w) repoURL a of
        Inl err \<Rightarrow> (Inl (''could not list remote refs: '' @ err), emit (RemoteListed repoURL) w)
      | Inr refs \<Rightarrow> (findBranch out b (NewBranchReferenceName b) refs, emit (RemoteListed repoURL) w))"

text \<open>
  The block shared by \<open>GetSha\<close> and \<open>CheckoutRepo\<close>: with a named profile, log it and build
  the auth method; with none, the auth method stays \<open>nil\<close>.
\<close>

definition authFor ::
  "GitServer \<Rightarrow> GitOutside \<Rightarrow> GitWorld \<Rightarrow> string \<Rightarrow> (error + AuthMethod option) \<times> GitWorld" where
  "authFor sv out w gitAuth =
     (if gitAuth \<noteq> ''''
      then (case createAuthMethod sv out gitAuth of
              Inl err \<Rightarrow> (Inl err, emit (Logged (''Using git auth '' @ gitAuth)) w)
            | Inr a \<Rightarrow> (Inr (Some a), emit (Logged (''Using git auth '' @ gitAuth)) w))
      else (Inr None, w))"

subsection \<open>GetSha\<close>

definition GetSha ::
  "GitServer \<Rightarrow> GitOutside \<Rightarrow> RepoCache \<Rightarrow> GitWorld \<Rightarrow> string \<Rightarrow> string \<Rightarrow> string
     \<Rightarrow> (error + string) \<times> RepoCache \<times> GitWorld" where
  "GetSha sv out r w sourceUrl b gitAuth0 =
     (let gitAuth = cmp_Or gitAuth0 (DefaultGitAuth sv) in
      case loadGitKey sv gitAuth of
        Inl err \<Rightarrow> (Inl err, r, w)
      | Inr authEntry \<Rightarrow>
         (case parseGitUrl sv sourceUrl (usingSSH authEntry) of
            Inl err \<Rightarrow> (Inl err, r, w)
          | Inr (repo, folder) \<Rightarrow>
             (case shaCache r \<lparr>url = repo, branch = b, commit = '''', auth = gitAuth\<rparr> of
                Some sha \<Rightarrow> (Inr sha, r, w)
              | None \<Rightarrow>
                 (case authFor sv out w gitAuth of
                    (Inl err, w1) \<Rightarrow> (Inl err, r, w1)
                  | (Inr a, w1) \<Rightarrow>
                     (case latestCommitSHA out w1 repo b a of
                        (Inl err, w2) \<Rightarrow> (Inl err, r, w2)
                      | (Inr sha, w2) \<Rightarrow>
                         (Inr sha,
                          r\<lparr>shaCache := (shaCache r)
                             (\<lparr>url = repo, branch = b, commit = '''', auth = gitAuth\<rparr> \<mapsto> sha)\<rparr>,
                          w2))))))"

subsection \<open>CheckoutRepo\<close>










definition Cleanup :: "RepoCache \<Rightarrow> RepoCache" where
  "Cleanup r = (if rootDir r \<noteq> '''' then r\<lparr>rootDir := ''''\<rparr> else r)"

text \<open>Clones, checkouts and remote listings among the events.\<close>

fun isClone :: "GitEvent \<Rightarrow> bool" where
  "isClone (Cloned t opts) = True"
| "isClone e = False"

fun isCheckout :: "GitEvent \<Rightarrow> bool" where
  "isCheckout (CheckedOut t opts) = True"
| "isCheckout e = False"

fun isRemoteList :: "GitEvent \<Rightarrow> bool" where
  "isRemoteList (RemoteListed u) = True"
| "isRemoteList e = False"

text \<open>Counting the clones, checkouts and remote listings that have happened.\<close>

definition clones :: "GitWorld \<Rightarrow> nat" where
  "clones w = length (filter isClone (events w))"

definition checkouts :: "GitWorld \<Rightarrow> nat" where
  "checkouts w = length (filter isCheckout (events w))"

definition remoteListings :: "GitWorld \<Rightarrow> nat" where
  "remoteListings w = length (filter isRemoteList (events w))"


subsection \<open>A small configuration to run the cache on\<close>

text \<open>
  A server with no default profile that knows only the anonymous profile, a remote with one
  branch \<open>main\<close> at commit \<open>abc123\<close>, and the same remote gone offline.
\<close>

definition exServer :: GitServer where
  "exServer =
     \<lparr>DefaultGitAuth = '''',
      loadGitKey = (\<lambda>g. if g = ''''
                         then Inr \<lparr>user = '''', key = '''', password = '''', usingSSH = False\<rparr>
                         else Inl ''git auth entry not found''),
      parseGitUrl = (\<lambda>u ssh. Inr (u, ''app''))\<rparr>"

definition exOutside :: GitOutside where
  "exOutside =
     \<lparr>newPublicKeys = (\<lambda>u k p. Inr (PublicKeys u k p)),
      remoteList = (\<lambda>n u a. Inr [\<lparr>refName = ''refs/heads/main'', refHash = ''abc123''\<rparr>]),
      plainClone = (\<lambda>n t opts. None),
      worktree = (\<lambda>n t. None),
      checkout = (\<lambda>n t opts. if Hash opts = ''deadbeef'' then Some ''object not found'' else None),
      head = (\<lambda>n t. Inr ''abc123''),
      commitObject = (\<lambda>n t h. Inr \<lparr>Message = ''initial commit'', commitHash = h\<rparr>),
      mkdirTemp = (\<lambda>n d p. Inr (d @ ''/'' @ p @ ''1'')),
      mkdirAll = (\<lambda>n d. None),
      notExist = (\<lambda>n p. True),
      pathJoin = (\<lambda>a b. a @ b),
      pathBase = (\<lambda>p. p),
      appSrcDir = ''/home/openrun/app_src/'',
      quoted = (\<lambda>s. s)\<rparr>"

definition exOffline :: GitOutside where
  "exOffline =
     exOutside\<lparr>remoteList := (\<lambda>n u a. Inl ''no route to host''),
               plainClone := (\<lambda>n t opts. Some ''no route to host'')\<rparr>"

definition exCache :: RepoCache where
  "exCache = \<lparr>rootDir = ''/tmp/openrun_git_1'', cache = Map.empty, shaCache = Map.empty\<rparr>"

definition exWarmCache :: RepoCache where
  "exWarmCache =
     exCache\<lparr>shaCache :=
       [\<lparr>url = ''https://example.com/r.git'', branch = ''main'', commit = '''', auth = ''nokey''\<rparr>
          \<mapsto> ''abc123'']\<rparr>"

definition exWorld :: GitWorld where
  "exWorld = \<lparr>calls = 0, events = []\<rparr>"

section \<open>The sync orchestrator\<close>

subsection \<open>Data\<close>

text \<open>
  \<open>AppPathDomain\<close> (a path and a domain) and the app entry are declared outside the sources
  at hand. Of the app entry only the two fields that the reload call reads are kept:
  \<open>Metadata.VersionMetadata.GitBranch\<close> and \<open>Settings.GitAuthName\<close>.
\<close>

type_synonym AppPathDomain = "string \<times> string"

record AppEntry =
  VersionGitBranch :: string
  SettingsGitAuthName :: string

text \<open>
  The results of creating and of approving an app are carried through the orchestrator and
  never looked into.
\<close>

typedecl AppCreateResponse

typedecl ApproveResult

record AppReloadResult =
  Reload_DryRun :: bool
  Reload_ReloadResults :: "AppPathDomain list"
  Reload_ApproveResult :: "ApproveResult option"
  Reload_PromoteResults :: "AppPathDomain list"
  Reload_SkippedResults :: "AppPathDomain list"

record AppApplyResponse =
  DryRun :: bool
  CommitId :: string
  SkippedApply :: bool
  CreateResults :: "AppCreateResponse list"
  UpdateResults :: "AppPathDomain list"
  ApproveResults :: "ApproveResult list"
  PromoteResults :: "AppPathDomain list"
  ReloadResults :: "AppPathDomain list"
  SkippedResults :: "AppPathDomain list"
  FilteredApps :: "AppPathDomain list"

text \<open>The zero value \<open>types.AppApplyResponse{}\<close>.\<close>

definition zeroApplyResponse :: AppApplyResponse where
  "zeroApplyResponse =
     \<lparr>DryRun = False, CommitId = '''', SkippedApply = False, CreateResults = [],
      UpdateResults = [], ApproveResults = [], PromoteResults = [], ReloadResults = [],
      SkippedResults = [], FilteredApps = []\<rparr>"

text \<open>
  The status, the metadata and the entry of a sync are declared outside the sources at hand;
  the fields are the ones the orchestrator reads and writes. A time is the number of
  nanoseconds since the zero time, so \<open>IsZero\<close> is equality with 0. The failure count only
  ever moves by one from what the orchestrator itself wrote and is a mathematical integer.
\<close>

record SyncJobStatus =
  LastExecutionTime :: int
  IsApply :: bool
  State :: string
  Error :: string
  FailureCount :: int
  Status_CommitId :: string
  ApplyResponse :: AppApplyResponse

definition zeroStatus :: SyncJobStatus where
  "zeroStatus =
     \<lparr>LastExecutionTime = 0, IsApply = False, State = '''', Error = '''', FailureCount = 0,
      Status_CommitId = '''', ApplyResponse = zeroApplyResponse\<rparr>"

record SyncMetadata =
  WebhookUrl :: string
  WebhookSecret :: string
  ScheduleFrequency :: int
  Approve :: bool
  Promote :: bool
  Reload :: string
  GitBranch :: string
  GitAuth :: string
  Clobber :: bool
  ForceReload :: bool

record SyncEntry =
  SyncId :: string
  Path :: string
  IsScheduled :: bool
  UserID :: string
  Metadata :: SyncMetadata
  Status :: SyncJobStatus

record SyncCreateResponse =
  Create_DryRun :: bool
  Create_Id :: string
  Create_WebhookUrl :: string
  Create_WebhookSecret :: string
  Create_ScheduleFrequency :: int
  Create_SyncJobStatus :: SyncJobStatus

text \<open>The two settings of \<open>config.System\<close> that the orchestrator reads.\<close>

record SystemConfig =
  MaxSyncFailureCount :: int
  DefaultScheduleMins :: int

definition AppReloadOptionMatched :: string where
  "AppReloadOptionMatched = ''matched''"

subsection \<open>The calls to the collaborators\<close>

text \<open>
  The arguments of the one call of \<open>Apply\<close> (line 499) and of the one call of \<open>ReloadApp\<close>
  (line 560), in the order of the call. A repository cache is passed by pointer; here it is
  the number of the cache.
\<close>

record ApplyCall =
  arg_path :: string
  arg_appPathGlob :: string
  arg_approve :: bool
  arg_dryRun :: bool
  arg_promote :: bool
  arg_reload :: string
  arg_branch :: string
  arg_commit :: string
  arg_gitAuth :: string
  arg_clobber :: bool
  arg_forceReload :: bool
  arg_lastRunCommitId :: string
  arg_repoCache :: nat
  arg_isWebhook :: bool

record ReloadCall =
  rel_app :: AppEntry
  rel_approve :: bool
  rel_dryRun :: bool
  rel_promote :: bool
  rel_branch :: string
  rel_commit :: string
  rel_gitAuth :: string
  rel_repoCache :: nat
  rel_forceReload :: bool

subsection \<open>The metadata store\<close>

text \<open>
  What the store holds: the sync entries in the order the store lists them, and the apps.
\<close>

record Store =
  syncs :: "SyncEntry list"
  apps :: "AppPathDomain \<rightharpoonup> AppEntry"

text \<open>
  The committed contents, the working copy of every open transaction, and the number the
  next transaction gets. The value \<open>types.Transaction{}\<close> with a nil \<open>Tx\<close> is \<open>None\<close>, a
  transaction in hand is \<open>Some\<close> of its number.
\<close>

record Database =
  durable :: Store
  txs :: "nat \<rightharpoonup> Store"
  nextTx :: nat

text \<open>What the orchestrator did, most recent first.\<close>

datatype SyncEvent =
  Invoked string bool
| TxBegun nat
| TxBeginFailed error
| TxRolledBack nat
| TxCommitted nat
| TxCommitFailed nat error
| CacheCreated nat
| CacheCreateFailed error
| CacheCleaned nat
| SyncCreated nat string
| EntriesLoaded nat
| AppLookedUp nat AppPathDomain
| ApplyCalled nat ApplyCall
| ReloadCalled nat ReloadCall
| StatusUpdated nat string SyncJobStatus
| Completed nat "AppPathDomain list" bool string
| LogMessage string
| LogError string error

record World =
  db :: Database
  clock :: nat
  journal :: "SyncEvent list"

definition recordEvent :: "SyncEvent \<Rightarrow> World \<Rightarrow> World" where
  "recordEvent e w = w\<lparr>clock := Suc (clock w), journal := e # journal w\<rparr>"

text \<open>
  The collaborators, taken as parameters: \<open>Apply\<close> and \<open>ReloadApp\<close>, which read and write the
  store through the transaction they are given and may leave partial writes behind when they
  fail; the clock; the random sources and string functions of \<open>CreateSyncEntry\<close>; and, for
  every operation of the store and for the creation of a repository cache, whether it fails
  this time. Each takes the number of the call, so that the same call may answer differently
  the next time.
\<close>

record Collab =
  Apply :: "nat \<Rightarrow> ApplyCall \<Rightarrow> Store
              \<Rightarrow> ((error + AppApplyResponse) \<times> AppPathDomain list) \<times> Store"
  ReloadApp :: "nat \<Rightarrow> ReloadCall \<Rightarrow> Store \<Rightarrow> (error + AppReloadResult) \<times> Store"
  timeNow :: "nat \<Rightarrow> int"
  failBegin :: "nat \<Rightarrow> error option"
  failCommit :: "nat \<Rightarrow> error option"
  failCreateSync :: "nat \<Rightarrow> error option"
  failGetSyncEntries :: "nat \<Rightarrow> error option"
  failUpdateSyncStatus :: "nat \<Rightarrow> error option"
  failGetApp :: "nat \<Rightarrow> error option"
  failNewRepoCache :: "nat \<Rightarrow> error option"
  newKsuid :: "nat \<Rightarrow> error + string"
  generatePassword :: "nat \<Rightarrow> error + string"
  base64 :: "string \<Rightarrow> string"
  toLower :: "string \<Rightarrow> string"
  contextUserId :: string

text \<open>The error of \<open>database/sql\<close> for a transaction that is no longer open.\<close>

definition ErrTxDone :: error where
  "ErrTxDone = ''sql: transaction has already been committed or rolled back''"

text \<open>
  Modelled from the spec: the metadata store and its transactions, which are not part of the
  sources at hand (section 6 lists \<open>BeginTransaction\<close>, \<open>CreateSync\<close>, \<open>GetSyncEntries\<close>,
  \<open>UpdateSyncStatus\<close> and the transaction's \<open>Commit\<close> and \<open>Rollback\<close>; section 4.2 has a
  transaction "rolled back by default unless explicitly completed"). A transaction works on
  its own copy of the committed contents; \<open>Commit\<close> makes the copy the committed contents,
  \<open>Rollback\<close> drops it, and both close the transaction. \<open>DeleteSyncEntry\<close> in the sources
  relies on the same reading: its dry run returns before \<open>tx.Commit()\<close> so that the delete is
  not kept.
\<close>

definition BeginTransaction :: "Collab \<Rightarrow> World \<Rightarrow> (error + nat) \<times> World" where
  "BeginTransaction env w =
     (case failBegin env (clock w) of
        Some err \<Rightarrow> (Inl err, recordEvent (TxBeginFailed err) w)
      | None \<Rightarrow>
         (Inr (nextTx (db w)),
          recordEvent (TxBegun (nextTx (db w)))
            (w\<lparr>db := (db w)\<lparr>txs := (txs (db w))(nextTx (db w) \<mapsto> durable (db w)),
                              nextTx := Suc (nextTx (db w))\<rparr>\<rparr>)))"

definition Rollback :: "nat \<Rightarrow> World \<Rightarrow> World" where
  "Rollback tx w = recordEvent (TxRolledBack tx) (w\<lparr>db := (db w)\<lparr>txs := (txs (db w))(tx := None)\<rparr>\<rparr>)"

definition Commit :: "Collab \<Rightarrow> nat \<Rightarrow> World \<Rightarrow> error option \<times> World" where
  "Commit env tx w =
     (case txs (db w) tx of
        None \<Rightarrow> (Some ErrTxDone, recordEvent (TxCommitFailed tx ErrTxDone) w)
      | Some s \<Rightarrow>
         (case failCommit env (clock w) of
            Some err \<Rightarrow>
              (Some err,
               recordEvent (TxCommitFailed tx err) (w\<lparr>db := (db w)\<lparr>txs := (txs (db w))(tx := None)\<rparr>\<rparr>))
          | None \<Rightarrow>
              (None,
               recordEvent (TxCommitted tx)
                 (w\<lparr>db := (db w)\<lparr>durable := s, txs := (txs (db w))(tx := None)\<rparr>\<rparr>))))"

text \<open>Writing through an open transaction changes its working copy and nothing else.\<close>

definition writeTx :: "nat \<Rightarrow> Store \<Rightarrow> World \<Rightarrow> World" where
  "writeTx tx s w = w\<lparr>db := (db w)\<lparr>txs := (txs (db w))(tx \<mapsto> s)\<rparr>\<rparr>"

definition CreateSync :: "Collab \<Rightarrow> nat \<Rightarrow> SyncEntry \<Rightarrow> World \<Rightarrow> error option \<times> World" where
  "CreateSync env tx entry w =
     (case txs (db w) tx of
        None \<Rightarrow> (Some ErrTxDone, recordEvent (SyncCreated tx (SyncId entry)) w)
      | Some s \<Rightarrow>
         (case failCreateSync env (clock w) of
            Some err \<Rightarrow> (Some err, recordEvent (SyncCreated tx (SyncId entry)) w)
          | None \<Rightarrow>
              (None,
               recordEvent (SyncCreated tx (SyncId entry))
                 (writeTx tx (s\<lparr>syncs := syncs s @ [entry]\<rparr>) w))))"

definition GetSyncEntries :: "Collab \<Rightarrow> nat \<Rightarrow> World \<Rightarrow> (error + SyncEntry list) \<times> World" where
  "GetSyncEntries env tx w =
     (case txs (db w) tx of
        None \<Rightarrow> (Inl ErrTxDone, recordEvent (EntriesLoaded tx) w)
      | Some s \<Rightarrow>
         (case failGetSyncEntries env (clock w) of
            Some err \<Rightarrow> (Inl err, recordEvent (EntriesLoaded tx) w)
          | None \<Rightarrow> (Inr (syncs s), recordEvent (EntriesLoaded tx) w)))"

definition setStatus :: "string \<Rightarrow> SyncJobStatus \<Rightarrow> SyncEntry \<Rightarrow> SyncEntry" where
  "setStatus i status e = (if SyncId e = i then e\<lparr>Status := status\<rparr> else e)"

definition UpdateSyncStatus ::
  "Collab \<Rightarrow> nat \<Rightarrow> string \<Rightarrow> SyncJobStatus \<Rightarrow> World \<Rightarrow> error option \<times> World" where
  "UpdateSyncStatus env tx i status w =
     (case txs (db w) tx of
        None \<Rightarrow> (Some ErrTxDone, recordEvent (StatusUpdated tx i status) w)
      | Some s \<Rightarrow>
         (case failUpdateSyncStatus env (clock w) of
            Some err \<Rightarrow> (Some err, recordEvent (StatusUpdated tx i status) w)
          | None \<Rightarrow>
              (None,
               recordEvent (StatusUpdated tx i status)
                 (writeTx tx (s\<lparr>syncs := map (setStatus i status) (syncs s)\<rparr>) w))))"

definition GetAppTx :: "Collab \<Rightarrow> nat \<Rightarrow> AppPathDomain \<Rightarrow> World \<Rightarrow> (error + AppEntry) \<times> World" where
  "GetAppTx env tx appPath w =
     (case txs (db w) tx of
        None \<Rightarrow> (Inl ErrTxDone, recordEvent (AppLookedUp tx appPath) w)
      | Some s \<Rightarrow>
         (case failGetApp env (clock w) of
            Some err \<Rightarrow> (Inl err, recordEvent (AppLookedUp tx appPath) w)
          | None \<Rightarrow>
             (case apps s appPath of
                None \<Rightarrow> (Inl ''app not found'', recordEvent (AppLookedUp tx appPath) w)
              | Some app \<Rightarrow> (Inr app, recordEvent (AppLookedUp tx appPath) w))))"

text \<open>
  Modelled from the spec: \<open>CompleteTransaction\<close>, which is not part of the sources at hand.
  Section 6: it "commits and performs any post-commit notification".
\<close>

definition CompleteTransaction ::
  "Collab \<Rightarrow> nat \<Rightarrow> AppPathDomain list \<Rightarrow> bool \<Rightarrow> string \<Rightarrow> World \<Rightarrow> error option \<times> World" where
  "CompleteTransaction env tx updatedApps dryRun reason w =
     (case Commit env tx w of
        (Some err, w1) \<Rightarrow> (Some err, w1)
      | (None, w1) \<Rightarrow> (None, recordEvent (Completed tx updatedApps dryRun reason) w1))"

text \<open>
  \<open>Apply\<close> and \<open>ReloadApp\<close> work on the copy of the transaction they are given. Given a
  transaction that is no longer open they can only fail.
\<close>

definition callApply ::
  "Collab \<Rightarrow> nat \<Rightarrow> ApplyCall \<Rightarrow> World
     \<Rightarrow> ((error + AppApplyResponse) \<times> AppPathDomain list) \<times> World" where
  "callApply env tx c w =
     (case txs (db w) tx of
        None \<Rightarrow> ((Inl ErrTxDone, []), recordEvent (ApplyCalled tx c) w)
      | Some s \<Rightarrow>
         (case Apply env (clock w) c s of
            (r, s') \<Rightarrow> (r, recordEvent (ApplyCalled tx c) (writeTx tx s' w))))"

definition callReloadApp ::
  "Collab \<Rightarrow> nat \<Rightarrow> ReloadCall \<Rightarrow> World \<Rightarrow> (error + AppReloadResult) \<times> World" where
  "callReloadApp env tx c w =
     (case txs (db w) tx of
        None \<Rightarrow> (Inl ErrTxDone, recordEvent (ReloadCalled tx c) w)
      | Some s \<Rightarrow>
         (case ReloadApp env (clock w) c s of
            (r, s') \<Rightarrow> (r, recordEvent (ReloadCalled tx c) (writeTx tx s' w))))"

text \<open>
  A repository cache as the orchestrator sees it: \<open>NewRepoCache\<close> fails when its temporary
  directory cannot be made and otherwise hands out a new cache; \<open>Cleanup\<close> is deferred by
  whoever made it. What \<open>Apply\<close> and \<open>ReloadApp\<close> do with the cache is their business.
\<close>

definition NewRepoCache :: "Collab \<Rightarrow> World \<Rightarrow> (error + nat) \<times> World" where
  "NewRepoCache env w =
     (case failNewRepoCache env (clock w) of
        Some err \<Rightarrow> (Inl err, recordEvent (CacheCreateFailed err) w)
      | None \<Rightarrow> (Inr (clock w), recordEvent (CacheCreated (clock w)) w))"

definition CleanupCache :: "nat \<Rightarrow> World \<Rightarrow> World" where
  "CleanupCache rc w = recordEvent (CacheCleaned rc) w"

text \<open>A deferred call runs on the way out, whatever is returned.\<close>

definition deferred :: "(World \<Rightarrow> World) \<Rightarrow> 'a \<times> World \<Rightarrow> 'a \<times> World" where
  "deferred f r = (fst r, f (snd r))"

subsection \<open>runSyncJob\<close>

text \<open>
  The failure accounting, written twice in the source (lines 509 to 518 for a failed apply,
  lines 564 to 570 for a failed reload): record the error text, count one more failure than
  the entry had, and set the state by comparing the new count with the configured maximum.
\<close>

definition markFailed :: "SystemConfig \<Rightarrow> SyncEntry \<Rightarrow> error \<Rightarrow> SyncJobStatus \<Rightarrow> SyncJobStatus" where
  "markFailed cfg entry err status =
     status\<lparr>Error := err,
            FailureCount := FailureCount (Status entry) + 1,
            State := (if MaxSyncFailureCount cfg \<le> FailureCount (Status entry) + 1
                      then ''Disabled'' else ''Failing'')\<rparr>"

text \<open>The arguments of the call of \<open>Apply\<close> at line 499.\<close>

definition applyCallFor :: "SyncEntry \<Rightarrow> bool \<Rightarrow> string \<Rightarrow> nat \<Rightarrow> ApplyCall" where
  "applyCallFor entry dryRun lastRunCommitId repoCache =
     \<lparr>arg_path = Path entry, arg_appPathGlob = ''all'',
      arg_approve = Approve (Metadata entry), arg_dryRun = dryRun,
      arg_promote = Promote (Metadata entry), arg_reload = Reload (Metadata entry),
      arg_branch = GitBranch (Metadata entry), arg_commit = '''',
      arg_gitAuth = GitAuth (Metadata entry), arg_clobber = Clobber (Metadata entry),
      arg_forceReload = ForceReload (Metadata entry), arg_lastRunCommitId = lastRunCommitId,
      arg_repoCache = repoCache, arg_isWebhook = False\<rparr>"

text \<open>The arguments of the call of \<open>ReloadApp\<close> at line 560.\<close>

definition reloadCallFor :: "SyncEntry \<Rightarrow> AppEntry \<Rightarrow> nat \<Rightarrow> ReloadCall" where
  "reloadCallFor entry app repoCache =
     \<lparr>rel_app = app, rel_approve = Approve (Metadata entry), rel_dryRun = False,
      rel_promote = Promote (Metadata entry), rel_branch = VersionGitBranch app,
      rel_commit = '''', rel_gitAuth = SettingsGitAuthName app, rel_repoCache = repoCache,
      rel_forceReload = ForceReload (Metadata entry)\<rparr>"

text \<open>
  The loop of lines 539 to 547: look up every app of the last run; the first lookup that
  fails ends the loop with \<open>appMissing\<close> set, which is the result \<open>None\<close>.
\<close>

fun lookupApps ::
  "Collab \<Rightarrow> World \<Rightarrow> nat \<Rightarrow> (AppPathDomain \<rightharpoonup> AppEntry) \<Rightarrow> AppPathDomain list
     \<Rightarrow> (AppPathDomain \<rightharpoonup> AppEntry) option \<times> World" where
  "lookupApps env w tx appMap [] = (Some appMap, w)"
| "lookupApps env w tx appMap (appPath # rest) =
     (case GetAppTx env tx appPath w of
        (Inl err, w1) \<Rightarrow>
          (None, recordEvent (LogError (''Error getting app '' @ fst appPath @ snd appPath) err) w1)
      | (Inr app, w1) \<Rightarrow> lookupApps env w1 tx (appMap(appPath \<mapsto> app)) rest)"

text \<open>
  The loop of lines 557 to 579: reload every app of the last run; the first reload that
  fails marks the status as failed and ends the loop. The three accumulated result lists and
  the status are threaded through. An app that is not in the map would be a nil pointer at
  line 561; \<open>lookupApps\<close> has put every app of the list into the map, so the case does not
  arise, and it is given the result of a failed reload.
\<close>

type_synonym ReloadLists = "AppPathDomain list \<times> ApproveResult list \<times> AppPathDomain list"

fun reloadApps ::
  "Collab \<Rightarrow> SystemConfig \<Rightarrow> World \<Rightarrow> nat \<Rightarrow> SyncEntry \<Rightarrow> nat \<Rightarrow> (AppPathDomain \<rightharpoonup> AppEntry)
     \<Rightarrow> SyncJobStatus \<Rightarrow> ReloadLists \<Rightarrow> AppPathDomain list
     \<Rightarrow> (error option \<times> ReloadLists \<times> SyncJobStatus) \<times> World" where
  "reloadApps env cfg w tx entry repoCache appMap status acc [] = ((None, acc, status), w)"
| "reloadApps env cfg w tx entry repoCache appMap status acc (appPath # rest) =
     (case appMap appPath of
        None \<Rightarrow>
          ((Some ''invalid memory address or nil pointer dereference'', acc,
            markFailed cfg entry ''invalid memory address or nil pointer dereference'' status), w)
      | Some app \<Rightarrow>
         (case callReloadApp env tx (reloadCallFor entry app repoCache) w of
            (Inl reloadErr, w1) \<Rightarrow>
              ((Some reloadErr, acc, markFailed cfg entry reloadErr status),
               recordEvent
                 (LogError (''Error reloading app '' @ fst appPath @ snd appPath
                            @ '' sync job '' @ SyncId entry) reloadErr) w1)
          | (Inr reloadResult, w1) \<Rightarrow>
              reloadApps env cfg w1 tx entry repoCache appMap status
                (fst acc @ Reload_ReloadResults reloadResult,
                 (case Reload_ApproveResult reloadResult of
                    None \<Rightarrow> fst (snd acc)
                  | Some a \<Rightarrow> fst (snd acc) @ [a]),
                 snd (snd acc) @ Reload_PromoteResults reloadResult)
                rest))"

text \<open>
  Lines 493 to 587, after the transaction and the cache are in hand: call \<open>Apply\<close>, build
  the status, and in the skip path look the apps up and reload them. The attempt ends either
  with an app missing (the job is to be run again) or with the status, the apply response and
  the updated apps that the rest of the function works on.
\<close>

datatype Attempt =
  AppMissing
| Attempted SyncJobStatus AppApplyResponse "AppPathDomain list"

definition syncAttempt ::
  "Collab \<Rightarrow> SystemConfig \<Rightarrow> World \<Rightarrow> nat \<Rightarrow> SyncEntry \<Rightarrow> bool \<Rightarrow> bool \<Rightarrow> nat \<Rightarrow> Attempt \<times> World" where
  "syncAttempt env cfg w tx entry dryRun checkCommitHash repoCache =
     (let lastRunApps = FilteredApps (ApplyResponse (Status entry));
          lastRunCommitId = (if checkCommitHash then Status_CommitId (Status entry) else '''')
      in
      case callApply env tx (applyCallFor entry dryRun lastRunCommitId repoCache) w of
        ((applyResult, updatedApps), w1) \<Rightarrow>
          (let status0 = \<lparr>LastExecutionTime = timeNow env (clock w1), IsApply = True,
                          State = ''Enabled'', Error = '''', FailureCount = 0,
                          Status_CommitId = '''', ApplyResponse = zeroApplyResponse\<rparr>
           in
           case applyResult of
             Inl applyErr \<Rightarrow>
               (Attempted (markFailed cfg entry applyErr status0)
                  (zeroApplyResponse\<lparr>DryRun := dryRun, FilteredApps := lastRunApps\<rparr>)
                  updatedApps,
                recordEvent (LogError (''Error applying sync job '' @ SyncId entry) applyErr) w1)
           | Inr applyInfo \<Rightarrow>
               (let status = status0\<lparr>Status_CommitId := CommitId applyInfo, FailureCount := 0\<rparr>
                in
                if SkippedApply applyInfo \<and> Reload (Metadata entry) = AppReloadOptionMatched
                then
                  (let applyInfo1 = (if length (FilteredApps applyInfo) = 0
                                     then applyInfo\<lparr>FilteredApps := lastRunApps\<rparr>
                                     else applyInfo)
                   in
                   case lookupApps env w1 tx Map.empty lastRunApps of
                     (None, w2) \<Rightarrow> (AppMissing, w2)
                   | (Some appMap, w2) \<Rightarrow>
                      (case reloadApps env cfg w2 tx entry repoCache appMap status
                              ([], [], []) lastRunApps of
                         ((reloadErr, acc, status1), w3) \<Rightarrow>
                           (Attempted status1
                              (if reloadErr \<noteq> None
                               then applyInfo1\<lparr>ReloadResults := fst acc,
                                                ApproveResults := fst (snd acc),
                                                PromoteResults := snd (snd acc)\<rparr>
                               else applyInfo1)
                              updatedApps,
                            w3)))
                else (Attempted status applyInfo updatedApps, w1))))"

text \<open>
  Lines 601 to 613: put the apply response into the status, write the status through the
  transaction, complete the transaction when the run succeeded and the transaction is the
  function's own, and return the status with the updated apps.
\<close>

definition storeStatus ::
  "Collab \<Rightarrow> World \<Rightarrow> nat \<Rightarrow> nat option \<Rightarrow> SyncEntry \<Rightarrow> bool \<Rightarrow> SyncJobStatus \<Rightarrow> AppApplyResponse
     \<Rightarrow> AppPathDomain list \<Rightarrow> (error + SyncJobStatus \<times> AppPathDomain list) \<times> World" where
  "storeStatus env w tx inputTx entry dryRun status applyInfo updatedApps =
     (case UpdateSyncStatus env tx (SyncId entry) (status\<lparr>ApplyResponse := applyInfo\<rparr>) w of
        (Some err, w1) \<Rightarrow> (Inl err, w1)
      | (None, w1) \<Rightarrow>
          if Error status = '''' \<and> inputTx = None
          then (case CompleteTransaction env tx updatedApps dryRun ''sync'' w1 of
                  (Some err, w2) \<Rightarrow> (Inl err, w2)
                | (None, w2) \<Rightarrow> (Inr (status\<lparr>ApplyResponse := applyInfo\<rparr>, updatedApps), w2))
          else (Inr (status\<lparr>ApplyResponse := applyInfo\<rparr>, updatedApps), w1))"

text \<open>
  Lines 589 to 613. When the status carries an error: roll the transaction back, begin a new
  one, defer its rollback, and forget the updated apps; then store the status. The deferred
  rollback of the new transaction runs when the function returns.
\<close>

definition persistStatus ::
  "Collab \<Rightarrow> World \<Rightarrow> nat \<Rightarrow> nat option \<Rightarrow> SyncEntry \<Rightarrow> bool \<Rightarrow> SyncJobStatus \<Rightarrow> AppApplyResponse
     \<Rightarrow> AppPathDomain list \<Rightarrow> (error + SyncJobStatus \<times> AppPathDomain list) \<times> World" where
  "persistStatus env w tx inputTx entry dryRun status applyInfo updatedApps =
     (if Error status \<noteq> ''''
      then (case BeginTransaction env (Rollback tx w) of
              (Inl err, w1) \<Rightarrow> (Inl err, w1)
            | (Inr tx2, w1) \<Rightarrow>
                deferred (Rollback tx2)
                  (storeStatus env w1 tx2 inputTx entry dryRun status applyInfo []))
      else storeStatus env w tx inputTx entry dryRun status applyInfo updatedApps)"

text \<open>
  Lines 470 to 491. On entry a mark goes into the journal, so that the calls of \<open>runSyncJob\<close>
  can be counted. The transaction is the caller's or a new one; the cache is the caller's or
  a new one, made after the debug message.
\<close>

definition acquireTx ::
  "Collab \<Rightarrow> World \<Rightarrow> nat option \<Rightarrow> SyncEntry \<Rightarrow> bool \<Rightarrow> (error + nat) \<times> World" where
  "acquireTx env w inputTx entry checkCommitHash =
     (case inputTx of
        None \<Rightarrow> BeginTransaction env (recordEvent (Invoked (SyncId entry) checkCommitHash) w)
      | Some t \<Rightarrow> (Inr t, recordEvent (Invoked (SyncId entry) checkCommitHash) w))"

definition acquireCache ::
  "Collab \<Rightarrow> World \<Rightarrow> SyncEntry \<Rightarrow> nat option \<Rightarrow> (error + nat) \<times> World" where
  "acquireCache env w entry repoCache =
     (case repoCache of
        None \<Rightarrow> NewRepoCache env (recordEvent (LogMessage (''Running sync job '' @ SyncId entry)) w)
      | Some c \<Rightarrow> (Inr c, recordEvent (LogMessage (''Running sync job '' @ SyncId entry)) w))"

text \<open>
  The whole function. The rollback of its own transaction and the cleanup of its own cache
  are deferred. When an app of the last run is missing, the function calls itself with
  \<open>checkCommitHash\<close> false, or fails if it already is false.
\<close>

function runSyncJob ::
  "Collab \<Rightarrow> SystemConfig \<Rightarrow> World \<Rightarrow> nat option \<Rightarrow> SyncEntry \<Rightarrow> bool \<Rightarrow> bool \<Rightarrow> nat option
     \<Rightarrow> (error + SyncJobStatus \<times> AppPathDomain list) \<times> World" where
  "runSyncJob env cfg w inputTx entry dryRun checkCommitHash repoCache =
     (case acquireTx env w inputTx entry checkCommitHash of
        (Inl err, w1) \<Rightarrow> (Inl err, w1)
      | (Inr tx, w1) \<Rightarrow>
          deferred (if inputTx = None then Rollback tx else id)
            (case acquireCache env w1 entry repoCache of
               (Inl err, w2) \<Rightarrow> (Inl err, w2)
             | (Inr rc, w2) \<Rightarrow>
                 deferred (if repoCache = None then CleanupCache rc else id)
                   (case syncAttempt env cfg w2 tx entry dryRun checkCommitHash rc of
                      (AppMissing, w3) \<Rightarrow>
                        if \<not> checkCommitHash
                        then (Inl ''Unexpected error, sync rerun with no commit hash'', w3)
                        else runSyncJob env cfg w3 inputTx entry dryRun False (Some rc)
                    | (Attempted status applyInfo updatedApps, w3) \<Rightarrow>
                        persistStatus env w3 tx inputTx entry dryRun status applyInfo
                          updatedApps)))"
  by pat_completeness auto

termination
  by (relation "measure (\<lambda>(env, cfg, w, inputTx, entry, dryRun, checkCommitHash, repoCache).
                            if checkCommitHash then 1 else 0)")
     auto

declare runSyncJob.simps [simp del]

subsection \<open>CreateSyncEntry\<close>

text \<open>
  Lines 282 to 305: the identifier, the webhook secret of an entry that is not scheduled, the
  default frequency of a scheduled entry that has none, and the entry itself with the zero
  status.
\<close>

definition newSyncEntry ::
  "Collab \<Rightarrow> SystemConfig \<Rightarrow> World \<Rightarrow> string \<Rightarrow> bool \<Rightarrow> SyncMetadata \<Rightarrow> error + SyncEntry" where
  "newSyncEntry env cfg w path scheduled sync =
     (case newKsuid env (clock w) of
        Inl err \<Rightarrow> Inl err
      | Inr genId \<Rightarrow>
         (if \<not> scheduled
          then (case generatePassword env (clock w) of
                  Inl err \<Rightarrow> Inl err
                | Inr secret \<Rightarrow>
                    Inr \<lparr>SyncId = ''cl_syn_'' @ toLower env genId, Path = path,
                         IsScheduled = scheduled, UserID = contextUserId env,
                         Metadata = sync\<lparr>WebhookSecret := ''cl_tkn_'' @ base64 env secret\<rparr>,
                         Status = zeroStatus\<rparr>)
          else Inr \<lparr>SyncId = ''cl_syn_'' @ toLower env genId, Path = path,
                    IsScheduled = scheduled, UserID = contextUserId env,
                    Metadata = (if ScheduleFrequency sync \<le> 0
                                then sync\<lparr>ScheduleFrequency := DefaultScheduleMins cfg\<rparr>
                                else sync),
                    Status = zeroStatus\<rparr>))"

definition CreateSyncEntry ::
  "Collab \<Rightarrow> SystemConfig \<Rightarrow> World \<Rightarrow> string \<Rightarrow> bool \<Rightarrow> bool \<Rightarrow> SyncMetadata
     \<Rightarrow> (error + SyncCreateResponse) \<times> World" where
  "CreateSyncEntry env cfg w path scheduled dryRun sync =
     (case BeginTransaction env w of
        (Inl err, w1) \<Rightarrow> (Inl err, w1)
      | (Inr tx, w1) \<Rightarrow>
          deferred (Rollback tx)
            (case newSyncEntry env cfg w1 path scheduled sync of
               Inl err \<Rightarrow> (Inl err, w1)
             | Inr syncEntry \<Rightarrow>
                (case CreateSync env tx syncEntry w1 of
                   (Some err, w2) \<Rightarrow> (Inl err, w2)
                 | (None, w2) \<Rightarrow>
                    (case runSyncJob env cfg w2 (Some tx) syncEntry dryRun True None of
                       (Inl err, w3) \<Rightarrow> (Inl err, w3)
                     | (Inr (syncStatus, updatedApps), w3) \<Rightarrow>
                         if Error syncStatus \<noteq> ''''
                         then (Inl (Error syncStatus), w3)
                         else (case CompleteTransaction env tx updatedApps dryRun
                                      ''create_sync'' w3 of
                                 (Some err, w4) \<Rightarrow> (Inl err, w4)
                               | (None, w4) \<Rightarrow>
                                   (Inr \<lparr>Create_DryRun = dryRun,
                                         Create_Id = SyncId syncEntry,
                                         Create_WebhookUrl = '''',
                                         Create_WebhookSecret =
                                           WebhookSecret (Metadata syncEntry),
                                         Create_ScheduleFrequency =
                                           ScheduleFrequency (Metadata syncEntry),
                                         Create_SyncJobStatus = syncStatus\<rparr>,
                                    w4))))))"

subsection \<open>The scheduler\<close>

text \<open>
  \<open>time.Duration(n) * time.Minute\<close>: a product of 64-bit signed integers, which wraps
  around.
\<close>

definition int64 :: "int \<Rightarrow> int" where
  "int64 x = (x + 2 ^ 63) mod 2 ^ 64 - 2 ^ 63"

definition minutes :: "int \<Rightarrow> int" where
  "minutes n = int64 (n * 60000000000)"

text \<open>The three guards of lines 444 to 456, in their order.\<close>

definition notScheduled :: "SyncEntry \<Rightarrow> bool" where
  "notScheduled entry = (\<not> IsScheduled entry \<or> ScheduleFrequency (Metadata entry) \<le> 0)"

definition notReady :: "int \<Rightarrow> SyncEntry \<Rightarrow> bool" where
  "notReady now entry =
     (LastExecutionTime (Status entry) \<noteq> 0 \<and>
      LastExecutionTime (Status entry) + minutes (ScheduleFrequency (Metadata entry)) > now)"

definition failedTooOften :: "SystemConfig \<Rightarrow> SyncEntry \<Rightarrow> bool" where
  "failedTooOften cfg entry = (MaxSyncFailureCount cfg \<le> FailureCount (Status entry))"

text \<open>The loop of lines 443 to 463 over the entries that were loaded.\<close>

fun runEntries :: "Collab \<Rightarrow> SystemConfig \<Rightarrow> World \<Rightarrow> nat \<Rightarrow> SyncEntry list \<Rightarrow> World" where
  "runEntries env cfg w rc [] = w"
| "runEntries env cfg w rc (entry # rest) =
     (if notScheduled entry then runEntries env cfg w rc rest
      else if notReady (timeNow env (clock w)) entry
      then runEntries env cfg
             (recordEvent (LogMessage (''Sync job '' @ SyncId entry @ '' not ready to run'')) w)
             rc rest
      else if failedTooOften cfg entry
      then runEntries env cfg
             (recordEvent
                (LogMessage (''Sync job '' @ SyncId entry @ '' has failed too many times, skipping''))
                w)
             rc rest
      else (case runSyncJob env cfg w None entry False True (Some rc) of
              (Inl err, w1) \<Rightarrow>
                runEntries env cfg
                  (recordEvent (LogError (''Error running sync job '' @ SyncId entry) err) w1)
                  rc rest
            | (Inr r, w1) \<Rightarrow> runEntries env cfg w1 rc rest))"

definition runSyncJobs :: "Collab \<Rightarrow> SystemConfig \<Rightarrow> World \<Rightarrow> error option \<times> World" where
  "runSyncJobs env cfg w =
     (case BeginTransaction env w of
        (Inl err, w1) \<Rightarrow> (Some err, w1)
      | (Inr tx, w1) \<Rightarrow>
          deferred (Rollback tx)
            (case NewRepoCache env w1 of
               (Inl err, w2) \<Rightarrow> (Some err, w2)
             | (Inr rc, w2) \<Rightarrow>
                 deferred (CleanupCache rc)
                   (case GetSyncEntries env tx w2 of
                      (Inl err, w3) \<Rightarrow> (Some err, w3)
                    | (Inr scheduleEntries, w3) \<Rightarrow>
                        (None, runEntries env cfg w3 rc scheduleEntries))))"

text \<open>
  \<open>syncRunner\<close> waits on the timer and runs the jobs at every tick until a tick returns an
  error; then it leaves the loop and returns. The runner is either still in its loop or has
  stopped; a tick that arrives after it has stopped finds nobody waiting.
\<close>

datatype Runner = Running | Stopped

definition onTick :: "Collab \<Rightarrow> SystemConfig \<Rightarrow> Runner \<times> World \<Rightarrow> Runner \<times> World" where
  "onTick env cfg rw =
     (case fst rw of
        Stopped \<Rightarrow> rw
      | Running \<Rightarrow>
         (case runSyncJobs env cfg (snd rw) of
            (Some err, w1) \<Rightarrow>
              (Stopped,
               recordEvent (LogMessage ''Sync runner stopped'')
                 (recordEvent (LogError ''Error running sync'' err) w1))
          | (None, w1) \<Rightarrow> (Running, w1)))"

definition syncRunner :: "Collab \<Rightarrow> SystemConfig \<Rightarrow> World \<Rightarrow> nat \<Rightarrow> Runner \<times> World" where
  "syncRunner env cfg w n =
     ((onTick env cfg) ^^ n) (Running, recordEvent (LogMessage ''Starting sync runner loop'') w)"

text \<open>How often \<open>runSyncJob\<close> has been entered.\<close>

fun isInvoked :: "SyncEvent \<Rightarrow> bool" where
  "isInvoked (Invoked i c) = True"
| "isInvoked e = False"

definition marks :: "World \<Rightarrow> SyncEvent list" where
  "marks w = filter isInvoked (journal w)"

definition invocations :: "World \<Rightarrow> nat" where
  "invocations w = length (marks w)"

subsection \<open>What the claims speak of\<close>

text \<open>
  Every error that \<open>Apply\<close> and \<open>ReloadApp\<close> return has a text. The status records a failure
  by the text of the error, and the rest of \<open>runSyncJob\<close> tells a failed run from a successful
  one by that text being empty or not.
\<close>

definition errorsHaveText :: "Collab \<Rightarrow> bool" where
  "errorsHaveText env =
     ((\<forall>n c s. fst (fst (Apply env n c s)) \<noteq> Inl '''') \<and>
      (\<forall>n c s. fst (ReloadApp env n c s) \<noteq> Inl ''''))"

text \<open>
  A run of \<open>runSyncJob\<close> made durable changes only if it opened its own transaction and
  returned a status without an error.
\<close>

definition succeeded :: "nat option \<Rightarrow> (error + SyncJobStatus \<times> AppPathDomain list) \<Rightarrow> bool" where
  "succeeded inputTx res =
     (inputTx = None \<and> (case res of Inl err \<Rightarrow> False | Inr r \<Rightarrow> Error (fst r) = ''''))"

text \<open>The transition rule of the state machine, read off a returned status.\<close>

definition followsRule :: "SystemConfig \<Rightarrow> SyncEntry \<Rightarrow> SyncJobStatus \<Rightarrow> bool" where
  "followsRule cfg entry status =
     ((Error status \<noteq> '''' \<longrightarrow>
         FailureCount status = FailureCount (Status entry) + 1 \<and>
         State status = (if MaxSyncFailureCount cfg \<le> FailureCount status
                         then ''Disabled'' else ''Failing'')) \<and>
      (Error status = '''' \<longrightarrow> FailureCount status = 0 \<and> State status = ''Enabled''))"

subsection \<open>A small installation to run the orchestrator on\<close>

text \<open>
  One scheduled entry that has never run, in a store without apps; collaborators that
  succeed, and variants of them in which one thing goes wrong.
\<close>

definition exConfig :: SystemConfig where
  "exConfig = \<lparr>MaxSyncFailureCount = 3, DefaultScheduleMins = 15\<rparr>"

definition exMetadata :: SyncMetadata where
  "exMetadata =
     \<lparr>WebhookUrl = '''', WebhookSecret = '''', ScheduleFrequency = 10, Approve = False,
      Promote = False, Reload = ''matched'', GitBranch = ''main'', GitAuth = '''',
      Clobber = False, ForceReload = False\<rparr>"

definition exEntry :: SyncEntry where
  "exEntry =
     \<lparr>SyncId = ''cl_syn_1'', Path = ''github.com/org/apps/apply.ace'', IsScheduled = True,
      UserID = ''admin'', Metadata = exMetadata, Status = zeroStatus\<rparr>"

definition exDatabase :: Database where
  "exDatabase = \<lparr>durable = \<lparr>syncs = [exEntry], apps = Map.empty\<rparr>, txs = Map.empty, nextTx = 0\<rparr>"

definition exSyncWorld :: World where
  "exSyncWorld = \<lparr>db = exDatabase, clock = 0, journal = []\<rparr>"

definition exCollab :: Collab where
  "exCollab =
     \<lparr>Apply = (\<lambda>n c s. ((Inr (zeroApplyResponse\<lparr>CommitId := ''abc123''\<rparr>), []), s)),
      ReloadApp = (\<lambda>n c s. (Inr \<lparr>Reload_DryRun = False, Reload_ReloadResults = [],
                                   Reload_ApproveResult = None, Reload_PromoteResults = [],
                                   Reload_SkippedResults = []\<rparr>, s)),
      timeNow = (\<lambda>n. 1000),
      failBegin = (\<lambda>n. None),
      failCommit = (\<lambda>n. None),
      failCreateSync = (\<lambda>n. None),
      failGetSyncEntries = (\<lambda>n. None),
      failUpdateSyncStatus = (\<lambda>n. None),
      failGetApp = (\<lambda>n. None),
      failNewRepoCache = (\<lambda>n. None),
      newKsuid = (\<lambda>n. Inr ''2abc''),
      generatePassword = (\<lambda>n. Inr ''secret''),
      base64 = (\<lambda>s. s),
      toLower = (\<lambda>s. s),
      contextUserId = ''admin''\<rparr>"

text \<open>The apply fails: the repository cannot be checked out.\<close>

definition exApplyFails :: Collab where
  "exApplyFails = exCollab\<lparr>Apply := (\<lambda>n c s. ((Inl ''checkout failed'', []), s))\<rparr>"

text \<open>The same entry after two failed runs.\<close>

definition exFailedTwice :: SyncEntry where
  "exFailedTwice =
     exEntry\<lparr>Status := zeroStatus\<lparr>State := ''Failing'', Error := ''checkout failed'',
                                    FailureCount := 2\<rparr>\<rparr>"

text \<open>The same entry when its failure count has reached the configured maximum.\<close>

definition exAtMaximum :: SyncEntry where
  "exAtMaximum =
     exEntry\<lparr>Status := zeroStatus\<lparr>State := ''Disabled'', Error := ''checkout failed'',
                                    FailureCount := 3\<rparr>\<rparr>"

text \<open>
  The same entry after a successful run at commit \<open>abc123\<close> that touched one app, in a store
  that has the app and in a store from which the app has been deleted.
\<close>

definition exApp :: AppEntry where
  "exApp = \<lparr>VersionGitBranch = ''main'', SettingsGitAuthName = ''''\<rparr>"

definition exRanEntry :: SyncEntry where
  "exRanEntry =
     exEntry\<lparr>Status :=
       \<lparr>LastExecutionTime = 500, IsApply = True, State = ''Enabled'', Error = '''',
        FailureCount = 0, Status_CommitId = ''abc123'',
        ApplyResponse = zeroApplyResponse\<lparr>CommitId := ''abc123'',
                                           FilteredApps := [(''/app1'', '''')]\<rparr>\<rparr>\<rparr>"

definition exWithApp :: World where
  "exWithApp =
     \<lparr>db = \<lparr>durable = \<lparr>syncs = [exRanEntry], apps = [(''/app1'', '''') \<mapsto> exApp]\<rparr>,
            txs = Map.empty, nextTx = 0\<rparr>,
      clock = 0, journal = []\<rparr>"

definition exWithoutApp :: World where
  "exWithoutApp =
     \<lparr>db = \<lparr>durable = \<lparr>syncs = [exRanEntry], apps = Map.empty\<rparr>,
            txs = Map.empty, nextTx = 0\<rparr>,
      clock = 0, journal = []\<rparr>"

text \<open>
  An apply that skips when it is told the commit of the last run and otherwise applies in
  full, creating the app; an apply that always skips; and a reload that fails.
\<close>

definition exSkipping :: Collab where
  "exSkipping =
     exCollab\<lparr>Apply := (\<lambda>n c s.
        if arg_lastRunCommitId c = ''abc123''
        then ((Inr (zeroApplyResponse\<lparr>CommitId := ''def456'', SkippedApply := True\<rparr>), []), s)
        else ((Inr (zeroApplyResponse\<lparr>CommitId := ''def456'',
                                       FilteredApps := [(''/app1'', '''')]\<rparr>),
               [(''/app1'', '''')]),
              s\<lparr>apps := (apps s)((''/app1'', '''') \<mapsto> exApp)\<rparr>))\<rparr>"

definition exAlwaysSkips :: Collab where
  "exAlwaysSkips =
     exCollab\<lparr>Apply := (\<lambda>n c s.
        ((Inr (zeroApplyResponse\<lparr>CommitId := ''abc123'', SkippedApply := True\<rparr>), []), s))\<rparr>"

definition exReloadFails :: Collab where
  "exReloadFails = exSkipping\<lparr>ReloadApp := (\<lambda>n c s. (Inl ''reload failed'', s))\<rparr>"

text \<open>
  The events of the journal that concern transactions, and an event with the status it
  carries blanked out, to show a journal in short.
\<close>

fun isTxEvent :: "SyncEvent \<Rightarrow> bool" where
  "isTxEvent (TxBegun t) = True"
| "isTxEvent (TxRolledBack t) = True"
| "isTxEvent (TxCommitted t) = True"
| "isTxEvent (TxCommitFailed t e) = True"
| "isTxEvent (StatusUpdated t i s) = True"
| "isTxEvent e = False"

fun withoutStatus :: "SyncEvent \<Rightarrow> SyncEvent" where
  "withoutStatus (StatusUpdated t i s) = StatusUpdated t i zeroStatus"
| "withoutStatus e = e"

text \<open>
  The entry that ran at time 500 with a frequency beyond what a 64-bit count of nanoseconds
  holds; a store with two entries that have never run; a store whose status writes fail; a
  store whose entry list cannot be loaded.
\<close>

definition exHugeFrequency :: SyncEntry where
  "exHugeFrequency =
     exRanEntry\<lparr>Metadata := exMetadata\<lparr>ScheduleFrequency := 153722868\<rparr>\<rparr>"

definition exTwoEntries :: World where
  "exTwoEntries =
     \<lparr>db = \<lparr>durable = \<lparr>syncs = [exEntry, exEntry\<lparr>SyncId := ''cl_syn_2''\<rparr>], apps = Map.empty\<rparr>,
            txs = Map.empty, nextTx = 0\<rparr>,
      clock = 0, journal = []\<rparr>"

definition exStatusWriteFails :: Collab where
  "exStatusWriteFails = exCollab\<lparr>failUpdateSyncStatus := (\<lambda>n. Some ''database is locked'')\<rparr>"

definition exStoreDown :: Collab where
  "exStoreDown = exCollab\<lparr>failGetSyncEntries := (\<lambda>n. Some ''database is locked'')\<rparr>"

text \<open>The errors that were logged.\<close>

fun isLogError :: "SyncEvent \<Rightarrow> bool" where
  "isLogError (LogError m e) = True"
| "isLogError e = False"

definition errorsLogged :: "World \<Rightarrow> SyncEvent list" where
  "errorsLogged w = filter isLogError (journal w)"

section \<open>Properties of the repository cache\<close>

subsection \<open>What each step does to the counts\<close>

lemma emit_counts [simp]:
  "clones (emit e w) = (if isClone e then Suc (clones w) else clones w)"
  "checkouts (emit e w) = (if isCheckout e then Suc (checkouts w) else checkouts w)"
  "remoteListings (emit e w) = (if isRemoteList e then Suc (remoteListings w) else remoteListings w)"
  by (simp_all add: clones_def checkouts_def remoteListings_def emit_def)

lemma authFor_counts:
  assumes "authFor sv out w g = (res, w1)"
  shows "clones w1 = clones w \<and> checkouts w1 = checkouts w \<and>
         remoteListings w1 = remoteListings w"
  using assms by (auto simp: authFor_def split: if_splits sum.splits)

lemma latestCommitSHA_counts:
  assumes "latestCommitSHA out w repo b a = (res, w1)"
  shows "clones w1 = clones w \<and> checkouts w1 = checkouts w \<and>
         remoteListings w1 = Suc (remoteListings w)"
  using assms by (auto simp: latestCommitSHA_def split: sum.splits)







lemma GetSha_no_clone:
  assumes "GetSha sv out r w sourceUrl b gitAuth = (res, r1, w1)"
  shows "clones w1 = clones w \<and> checkouts w1 = checkouts w \<and> cache r1 = cache r"
  using assms
  by (auto simp: GetSha_def Let_def split: sum.splits prod.splits option.splits
      dest!: authFor_counts latestCommitSHA_counts)

lemma GetSha_stored:
  assumes "GetSha sv out r w sourceUrl b gitAuth = (Inr sha, r1, w1)"
  shows "\<exists>authEntry repo folder.
           loadGitKey sv (cmp_Or gitAuth (DefaultGitAuth sv)) = Inr authEntry \<and>
           parseGitUrl sv sourceUrl (usingSSH authEntry) = Inr (repo, folder) \<and>
           shaCache r1 \<lparr>url = repo, branch = b, commit = '''',
                         auth = cmp_Or gitAuth (DefaultGitAuth sv)\<rparr> = Some sha"
  using assms
  by (auto simp: GetSha_def Let_def split: sum.splits prod.splits option.splits)

lemma GetSha_hit:
  assumes "GetSha sv out r w sourceUrl b gitAuth = (Inr sha, r1, w1)"
  shows "GetSha sv out2 r1 w2 sourceUrl b gitAuth = (Inr sha, r1, w2)"
  using assms
  by (auto simp: GetSha_def Let_def split: sum.splits prod.splits option.splits)

subsection \<open>The claims about the cache\<close>

text \<open>
  C10. \<open>GetSha\<close> resolves the auth profile (the given one, or the configured default when none
  is given) and parses the URL before it looks into the commit cache. When the profile cannot
  be loaded, or the URL cannot be parsed, the call returns that error whatever the cache
  holds, touching neither the cache nor the outside world: a cached commit for the same key
  does not bypass the resolution.
\<close>

theorem GetSha_auth_before_cache:
  assumes "loadGitKey sv (cmp_Or gitAuth (DefaultGitAuth sv)) = Inl err \<or>
           (\<exists>authEntry. loadGitKey sv (cmp_Or gitAuth (DefaultGitAuth sv)) = Inr authEntry \<and>
                        parseGitUrl sv sourceUrl (usingSSH authEntry) = Inl err)"
  shows "GetSha sv out r w sourceUrl b gitAuth = (Inl err, r, w)"
  using assms by (auto simp: GetSha_def Let_def)

theorem GetSha_auth_before_cache_witness:
  "shaCache exWarmCache
     \<lparr>url = ''https://example.com/r.git'', branch = ''main'', commit = '''', auth = ''nokey''\<rparr>
     = Some ''abc123'' \<and>
   GetSha exServer exOutside exWarmCache exWorld ''https://example.com/r.git'' ''main'' ''nokey''
     = (Inl ''git auth entry not found'', exWarmCache, exWorld)"
proof -
  have "loadGitKey exServer (cmp_Or ''nokey'' (DefaultGitAuth exServer))
          = Inl ''git auth entry not found''"
    by (simp add: exServer_def cmp_Or_def)
  then show ?thesis
    using GetSha_auth_before_cache
            [of exServer "''nokey''" "''git auth entry not found''"
                "''https://example.com/r.git''" exOutside exWarmCache exWorld "''main''"]
    by (simp add: exWarmCache_def)
qed

text \<open>
  C6. \<open>GetSha\<close> never clones and never checks out, whatever it returns, and it leaves the
  checkout cache alone. After a successful call the commit is in the commit cache under the
  key whose commit field is empty, and a second call with the same arguments on the resulting
  cache returns the same hash and leaves the cache and the outside world as they were: no
  second remote listing is made, whatever the remote would answer by then.
\<close>

theorem GetSha_cached:
  assumes "GetSha sv out r w sourceUrl b gitAuth = (res, r1, w1)"
  shows "clones w1 = clones w \<and> checkouts w1 = checkouts w \<and> cache r1 = cache r \<and>
         (\<forall>sha. res = Inr sha \<longrightarrow>
            (\<exists>authEntry repo folder.
               loadGitKey sv (cmp_Or gitAuth (DefaultGitAuth sv)) = Inr authEntry \<and>
               parseGitUrl sv sourceUrl (usingSSH authEntry) = Inr (repo, folder) \<and>
               shaCache r1 \<lparr>url = repo, branch = b, commit = '''',
                             auth = cmp_Or gitAuth (DefaultGitAuth sv)\<rparr> = Some sha) \<and>
            (\<forall>out2 w2. GetSha sv out2 r1 w2 sourceUrl b gitAuth = (Inr sha, r1, w2)))"
proof -
  have "\<exists>authEntry repo folder.
          loadGitKey sv (cmp_Or gitAuth (DefaultGitAuth sv)) = Inr authEntry \<and>
          parseGitUrl sv sourceUrl (usingSSH authEntry) = Inr (repo, folder) \<and>
          shaCache r1 \<lparr>url = repo, branch = b, commit = '''',
                        auth = cmp_Or gitAuth (DefaultGitAuth sv)\<rparr> = Some sha"
    if "res = Inr sha" for sha
    using assms that GetSha_stored [of sv out r w sourceUrl b gitAuth sha r1 w1] by simp
  moreover have "GetSha sv out2 r1 w2 sourceUrl b gitAuth = (Inr sha, r1, w2)"
    if "res = Inr sha" for sha out2 w2
    using assms that GetSha_hit [of sv out r w sourceUrl b gitAuth sha r1 w1] by simp
  ultimately show ?thesis
    using GetSha_no_clone [OF assms] by simp
qed

theorem GetSha_cached_witness:
  "GetSha exServer exOutside exCache exWorld ''https://example.com/r.git'' ''main'' ''''
     = (Inr ''abc123'',
        exCache\<lparr>shaCache := [\<lparr>url = ''https://example.com/r.git'', branch = ''main'',
                                commit = '''', auth = ''''\<rparr> \<mapsto> ''abc123'']\<rparr>,
        emit (RemoteListed ''https://example.com/r.git'') exWorld) \<and>
   GetSha exServer exOffline
       (exCache\<lparr>shaCache := [\<lparr>url = ''https://example.com/r.git'', branch = ''main'',
                                commit = '''', auth = ''''\<rparr> \<mapsto> ''abc123'']\<rparr>)
       (emit (RemoteListed ''https://example.com/r.git'') exWorld)
       ''https://example.com/r.git'' ''main'' ''''
     = (Inr ''abc123'',
        exCache\<lparr>shaCache := [\<lparr>url = ''https://example.com/r.git'', branch = ''main'',
                                commit = '''', auth = ''''\<rparr> \<mapsto> ''abc123'']\<rparr>,
        emit (RemoteListed ''https://example.com/r.git'') exWorld)"
proof -
  have first:
    "GetSha exServer exOutside exCache exWorld ''https://example.com/r.git'' ''main'' ''''
       = (Inr ''abc123'',
          exCache\<lparr>shaCache := [\<lparr>url = ''https://example.com/r.git'', branch = ''main'',
                                  commit = '''', auth = ''''\<rparr> \<mapsto> ''abc123'']\<rparr>,
          emit (RemoteListed ''https://example.com/r.git'') exWorld)"
    by (simp add: GetSha_def exServer_def exOutside_def exCache_def cmp_Or_def authFor_def
          latestCommitSHA_def NewBranchReferenceName_def)
  from GetSha_cached [OF first] first show ?thesis by blast
qed




section \<open>Properties of the sync orchestrator\<close>

subsection \<open>What the operations leave alone\<close>

text \<open>
  Apart from the mark that \<open>runSyncJob\<close> leaves on entry, no operation adds a mark to the
  journal; apart from a commit, no operation changes the committed contents of the store.
\<close>

lemma deferred_eq [simp]:
  "deferred f r = (a, w1) \<longleftrightarrow> (\<exists>w0. r = (a, w0) \<and> w1 = f w0)"
  by (cases r) (auto simp: deferred_def)

lemma deferred_pair [simp]: "deferred f (a, w) = (a, f w)"
  by (simp add: deferred_def)

lemma marks_recordEvent [simp]:
  "marks (recordEvent e w) = (if isInvoked e then e # marks w else marks w)"
  by (simp add: marks_def recordEvent_def)

lemma marks_writeTx [simp]: "marks (writeTx tx s w) = marks w"
  by (simp add: marks_def writeTx_def)

lemma durable_recordEvent [simp]: "durable (db (recordEvent e w)) = durable (db w)"
  by (simp add: recordEvent_def)

lemma durable_writeTx [simp]: "durable (db (writeTx tx s w)) = durable (db w)"
  by (simp add: writeTx_def)

lemma BeginTransaction_keeps:
  "BeginTransaction env w = (r, w1) \<Longrightarrow> marks w1 = marks w \<and> durable (db w1) = durable (db w)"
  by (auto simp: BeginTransaction_def marks_def recordEvent_def split: option.splits)

lemma Rollback_keeps [simp]:
  "marks (Rollback tx w) = marks w" "durable (db (Rollback tx w)) = durable (db w)"
  by (simp_all add: Rollback_def marks_def recordEvent_def)

lemma CleanupCache_keeps [simp]:
  "marks (CleanupCache rc w) = marks w" "durable (db (CleanupCache rc w)) = durable (db w)"
  by (simp_all add: CleanupCache_def)

lemma Commit_marks: "Commit env tx w = (r, w1) \<Longrightarrow> marks w1 = marks w"
  by (auto simp: Commit_def marks_def recordEvent_def split: option.splits)

lemma Commit_failed_durable:
  "Commit env tx w = (Some err, w1) \<Longrightarrow> durable (db w1) = durable (db w)"
  by (auto simp: Commit_def recordEvent_def split: option.splits)

lemma CompleteTransaction_marks:
  "CompleteTransaction env tx u d reason w = (r, w1) \<Longrightarrow> marks w1 = marks w"
  by (auto simp: CompleteTransaction_def split: prod.splits option.splits dest!: Commit_marks)

lemma CompleteTransaction_failed_durable:
  "CompleteTransaction env tx u d reason w = (Some err, w1) \<Longrightarrow>
   durable (db w1) = durable (db w)"
  by (auto simp: CompleteTransaction_def split: prod.splits option.splits
      dest!: Commit_failed_durable)

lemma CreateSync_keeps:
  "CreateSync env tx e w = (r, w1) \<Longrightarrow> marks w1 = marks w \<and> durable (db w1) = durable (db w)"
  by (auto simp: CreateSync_def split: option.splits)

lemma GetSyncEntries_keeps:
  "GetSyncEntries env tx w = (r, w1) \<Longrightarrow> marks w1 = marks w \<and> durable (db w1) = durable (db w)"
  by (auto simp: GetSyncEntries_def split: option.splits)

lemma UpdateSyncStatus_keeps:
  "UpdateSyncStatus env tx i st w = (r, w1) \<Longrightarrow>
   marks w1 = marks w \<and> durable (db w1) = durable (db w)"
  by (auto simp: UpdateSyncStatus_def split: option.splits)

lemma GetAppTx_keeps:
  "GetAppTx env tx a w = (r, w1) \<Longrightarrow> marks w1 = marks w \<and> durable (db w1) = durable (db w)"
  by (auto simp: GetAppTx_def split: option.splits)

lemma callApply_keeps:
  "callApply env tx c w = (r, w1) \<Longrightarrow> marks w1 = marks w \<and> durable (db w1) = durable (db w)"
  by (auto simp: callApply_def split: option.splits prod.splits)

lemma callReloadApp_keeps:
  "callReloadApp env tx c w = (r, w1) \<Longrightarrow> marks w1 = marks w \<and> durable (db w1) = durable (db w)"
  by (auto simp: callReloadApp_def split: option.splits prod.splits)

lemma NewRepoCache_keeps:
  "NewRepoCache env w = (r, w1) \<Longrightarrow> marks w1 = marks w \<and> durable (db w1) = durable (db w)"
  by (auto simp: NewRepoCache_def split: option.splits)

lemma lookupApps_keeps:
  "lookupApps env w tx m xs = (r, w1) \<Longrightarrow> marks w1 = marks w \<and> durable (db w1) = durable (db w)"
proof (induction xs arbitrary: w m)
  case Nil
  then show ?case by simp
next
  case (Cons a xs)
  then show ?case
    by (auto split: prod.splits sum.splits dest!: GetAppTx_keeps)
qed

lemma reloadApps_keeps:
  "reloadApps env cfg w tx entry rc m st acc xs = (r, w1) \<Longrightarrow>
   marks w1 = marks w \<and> durable (db w1) = durable (db w)"
proof (induction xs arbitrary: w st acc)
  case Nil
  then show ?case by simp
next
  case (Cons a xs)
  then show ?case
    by (auto split: prod.splits sum.splits option.splits dest!: callReloadApp_keeps)
qed

lemma syncAttempt_keeps:
  "syncAttempt env cfg w tx entry dryRun cch rc = (r, w1) \<Longrightarrow>
   marks w1 = marks w \<and> durable (db w1) = durable (db w)"
  by (auto simp: syncAttempt_def Let_def
      split: prod.splits sum.splits option.splits if_splits
      dest!: callApply_keeps lookupApps_keeps reloadApps_keeps)

lemma acquireTx_keeps:
  "acquireTx env w inputTx entry cch = (r, w1) \<Longrightarrow>
   marks w1 = Invoked (SyncId entry) cch # marks w \<and> durable (db w1) = durable (db w)"
  by (auto simp: acquireTx_def split: option.splits dest!: BeginTransaction_keeps)

lemma acquireCache_keeps:
  "acquireCache env w entry repoCache = (r, w1) \<Longrightarrow>
   marks w1 = marks w \<and> durable (db w1) = durable (db w)"
  by (auto simp: acquireCache_def split: option.splits dest!: NewRepoCache_keeps)

lemma storeStatus_marks:
  "storeStatus env w tx inputTx entry dryRun st info u = (r, w1) \<Longrightarrow> marks w1 = marks w"
  by (auto simp: storeStatus_def split: prod.splits option.splits if_splits
      dest!: UpdateSyncStatus_keeps CompleteTransaction_marks)

lemma persistStatus_marks:
  "persistStatus env w tx inputTx entry dryRun st info u = (r, w1) \<Longrightarrow> marks w1 = marks w"
  by (auto simp: persistStatus_def split: prod.splits sum.splits if_splits
      dest!: BeginTransaction_keeps storeStatus_marks)

subsection \<open>How often runSyncJob is entered\<close>

lemma runSyncJob_once:
  assumes "runSyncJob env cfg w inputTx entry dryRun False repoCache = (res, w1)"
  shows "marks w1 = Invoked (SyncId entry) False # marks w"
  using assms
  apply (subst (asm) runSyncJob.simps)
  apply (auto split: prod.splits sum.splits option.splits Attempt.splits if_splits
      dest!: acquireTx_keeps acquireCache_keeps syncAttempt_keeps persistStatus_marks)
  done

lemma runSyncJob_marks:
  assumes "runSyncJob env cfg w inputTx entry dryRun cch repoCache = (res, w1)"
  shows "marks w1 = Invoked (SyncId entry) cch # marks w \<or>
         (cch \<and> marks w1 = Invoked (SyncId entry) False # Invoked (SyncId entry) True # marks w)"
proof (cases cch)
  case False
  with assms runSyncJob_once show ?thesis by simp
next
  case True
  with assms show ?thesis
    apply (subst (asm) runSyncJob.simps)
    apply (auto split: prod.splits sum.splits option.splits Attempt.splits if_splits
      dest!: acquireTx_keeps acquireCache_keeps syncAttempt_keeps persistStatus_marks
             runSyncJob_once)
    done
qed

lemma runSyncJob_at_most_twice:
  assumes "runSyncJob env cfg w inputTx entry dryRun cch repoCache = (res, w1)"
  shows "Suc (invocations w) \<le> invocations w1 \<and> invocations w1 \<le> Suc (Suc (invocations w))"
  using runSyncJob_marks [OF assms] by (auto simp: invocations_def)

subsection \<open>What a run leaves in the store\<close>

lemma storeStatus_durable:
  "storeStatus env w tx inputTx entry dryRun st info u = (r, w1) \<Longrightarrow>
   \<not> succeeded inputTx r \<Longrightarrow> durable (db w1) = durable (db w)"
  by (auto simp: storeStatus_def succeeded_def split: prod.splits option.splits if_splits
      dest!: UpdateSyncStatus_keeps CompleteTransaction_failed_durable)

lemma storeStatus_result:
  "storeStatus env w tx inputTx entry dryRun st info u = (Inr (st1, u1), w1) \<Longrightarrow>
   st1 = st\<lparr>ApplyResponse := info\<rparr> \<and> u1 = u"
  by (auto simp: storeStatus_def split: prod.splits option.splits if_splits)

lemma persistStatus_result:
  "persistStatus env w tx inputTx entry dryRun st info u = (Inr (st1, u1), w1) \<Longrightarrow>
   st1 = st\<lparr>ApplyResponse := info\<rparr> \<and> u1 = (if Error st \<noteq> '''' then [] else u)"
  by (auto simp: persistStatus_def split: prod.splits sum.splits if_splits
      dest!: storeStatus_result)

lemma persistStatus_durable:
  "persistStatus env w tx inputTx entry dryRun st info u = (r, w1) \<Longrightarrow>
   \<not> succeeded inputTx r \<Longrightarrow> durable (db w1) = durable (db w)"
  by (auto simp: persistStatus_def split: prod.splits sum.splits if_splits
      dest!: BeginTransaction_keeps storeStatus_durable)

lemma runSyncJob_once_durable:
  assumes "runSyncJob env cfg w inputTx entry dryRun False repoCache = (res, w1)"
    and "\<not> succeeded inputTx res"
  shows "durable (db w1) = durable (db w)"
  using assms
  apply (subst (asm) runSyncJob.simps)
  apply (auto split: prod.splits sum.splits option.splits Attempt.splits if_splits
      dest!: acquireTx_keeps acquireCache_keeps syncAttempt_keeps persistStatus_durable)
  done

lemma runSyncJob_durable:
  assumes "runSyncJob env cfg w inputTx entry dryRun cch repoCache = (res, w1)"
    and "\<not> succeeded inputTx res"
  shows "durable (db w1) = durable (db w)"
proof (cases cch)
  case False
  with assms runSyncJob_once_durable show ?thesis by simp
next
  case True
  with assms show ?thesis
    apply (subst (asm) runSyncJob.simps)
    apply (auto split: prod.splits sum.splits option.splits Attempt.splits if_splits
      dest!: acquireTx_keeps acquireCache_keeps syncAttempt_keeps persistStatus_durable
             runSyncJob_once_durable)
    done
qed

subsection \<open>The status a run returns\<close>

lemma followsRule_markFailed:
  "e \<noteq> '''' \<Longrightarrow> followsRule cfg entry (markFailed cfg entry e st)"
  by (simp add: followsRule_def markFailed_def)

lemma followsRule_ApplyResponse [simp]:
  "followsRule cfg entry (st\<lparr>ApplyResponse := info\<rparr>) = followsRule cfg entry st"
  by (simp add: followsRule_def)

lemma followsRule_fresh:
  "followsRule cfg entry
     \<lparr>LastExecutionTime = t, IsApply = True, State = ''Enabled'', Error = '''',
      FailureCount = 0, Status_CommitId = c, ApplyResponse = r\<rparr>"
  by (simp add: followsRule_def)

lemma callApply_error_text:
  "callApply env tx c w = ((Inl e, u), w1) \<Longrightarrow> errorsHaveText env \<Longrightarrow> e \<noteq> ''''"
  by (auto simp: callApply_def errorsHaveText_def ErrTxDone_def
      split: option.splits prod.splits)
     (metis fst_conv)

lemma callReloadApp_error_text:
  "callReloadApp env tx c w = (Inl e, w1) \<Longrightarrow> errorsHaveText env \<Longrightarrow> e \<noteq> ''''"
  by (auto simp: callReloadApp_def errorsHaveText_def ErrTxDone_def
      split: option.splits prod.splits)
     (metis fst_conv)

lemma reloadApps_status:
  "reloadApps env cfg w tx entry rc m st acc xs = ((rerr, acc1, st1), w1) \<Longrightarrow>
   (case rerr of None \<Rightarrow> st1 = st | Some e \<Rightarrow> st1 = markFailed cfg entry e st)"
proof (induction xs arbitrary: w acc)
  case Nil
  then show ?case by simp
next
  case (Cons a xs)
  then show ?case
    by (auto split: prod.splits sum.splits option.splits)
qed

lemma reloadApps_error_text:
  "reloadApps env cfg w tx entry rc m st acc xs = ((Some e, acc1, st1), w1) \<Longrightarrow>
   errorsHaveText env \<Longrightarrow> e \<noteq> ''''"
proof (induction xs arbitrary: w acc)
  case Nil
  then show ?case by simp
next
  case (Cons a xs)
  then show ?case
    by (auto split: prod.splits sum.splits option.splits dest: callReloadApp_error_text)
qed

lemma reloadApps_outcome:
  assumes "reloadApps env cfg w tx entry rc m st acc xs = ((rerr, acc1, st1), w1)"
    and "errorsHaveText env"
  shows "(rerr = None \<and> st1 = st) \<or>
         (\<exists>e. rerr = Some e \<and> e \<noteq> '''' \<and> st1 = markFailed cfg entry e st)"
proof (cases rerr)
  case None
  with reloadApps_status [OF assms(1)] show ?thesis by simp
next
  case (Some e)
  with reloadApps_status [OF assms(1)] reloadApps_error_text assms show ?thesis
    by auto
qed

lemma syncAttempt_rule:
  assumes "syncAttempt env cfg w tx entry dryRun cch rc = (Attempted st info u, w1)"
    and "errorsHaveText env"
  shows "followsRule cfg entry st"
  using assms
  by (auto simp: syncAttempt_def Let_def followsRule_fresh
      split: prod.splits sum.splits option.splits if_splits
      dest!: callApply_error_text reloadApps_outcome
      intro!: followsRule_markFailed)

lemma runSyncJob_once_rule:
  assumes "runSyncJob env cfg w inputTx entry dryRun False repoCache = (Inr (st, u), w1)"
    and "errorsHaveText env"
  shows "followsRule cfg entry st"
  using assms
  apply (subst (asm) runSyncJob.simps)
  apply (auto split: prod.splits sum.splits option.splits Attempt.splits if_splits
      dest!: persistStatus_result syncAttempt_rule)
  done

lemma runSyncJob_rule:
  assumes "runSyncJob env cfg w inputTx entry dryRun cch repoCache = (Inr (st, u), w1)"
    and "errorsHaveText env"
  shows "followsRule cfg entry st"
proof (cases cch)
  case False
  with assms runSyncJob_once_rule show ?thesis by simp
next
  case True
  with assms show ?thesis
    apply (subst (asm) runSyncJob.simps)
    apply (auto split: prod.splits sum.splits option.splits Attempt.splits if_splits
      dest!: persistStatus_result syncAttempt_rule runSyncJob_once_rule)
    done
qed

text \<open>The updated apps of a run that ends with an error in the status are empty.\<close>

lemma runSyncJob_once_apps:
  assumes "runSyncJob env cfg w inputTx entry dryRun False repoCache = (Inr (st, u), w1)"
    and "Error st \<noteq> ''''"
  shows "u = []"
  using assms
  apply (subst (asm) runSyncJob.simps)
  apply (auto split: prod.splits sum.splits option.splits Attempt.splits if_splits
      dest!: persistStatus_result)
  done

lemma runSyncJob_apps:
  assumes "runSyncJob env cfg w inputTx entry dryRun cch repoCache = (Inr (st, u), w1)"
    and "Error st \<noteq> ''''"
  shows "u = []"
proof (cases cch)
  case False
  with assms runSyncJob_once_apps show ?thesis by simp
next
  case True
  with assms show ?thesis
    apply (subst (asm) runSyncJob.simps)
    apply (auto split: prod.splits sum.splits option.splits Attempt.splits if_splits
      dest!: persistStatus_result runSyncJob_once_apps)
    done
qed

subsection \<open>The reload loop and the status it is given\<close>



subsection \<open>A run without the commit check does not read the recorded commit\<close>

lemma markFailed_commit [simp]:
  "markFailed cfg (entry\<lparr>Status := (Status entry)\<lparr>Status_CommitId := c\<rparr>\<rparr>)
   = markFailed cfg entry"
  by (simp add: markFailed_def fun_eq_iff)

lemma reloadCallFor_commit [simp]:
  "reloadCallFor (entry\<lparr>Status := s\<rparr>) = reloadCallFor entry"
  by (simp add: reloadCallFor_def fun_eq_iff)

lemma applyCallFor_commit [simp]:
  "applyCallFor (entry\<lparr>Status := s\<rparr>) = applyCallFor entry"
  by (simp add: applyCallFor_def fun_eq_iff)

lemma reloadApps_commit [simp]:
  "reloadApps env cfg w tx (entry\<lparr>Status := (Status entry)\<lparr>Status_CommitId := c\<rparr>\<rparr>)
     rc m st acc xs
   = reloadApps env cfg w tx entry rc m st acc xs"
proof (induction xs arbitrary: w acc)
  case Nil
  then show ?case by simp
next
  case (Cons a xs)
  then show ?case
    by (simp split: option.splits prod.splits sum.splits)
qed


lemma persistStatus_commit [simp]:
  "persistStatus env w tx inputTx (entry\<lparr>Status := s\<rparr>) = persistStatus env w tx inputTx entry"
  by (simp add: persistStatus_def storeStatus_def fun_eq_iff
        split: prod.splits sum.splits option.splits)

lemma acquire_commit [simp]:
  "acquireTx env w inputTx (entry\<lparr>Status := s\<rparr>) = acquireTx env w inputTx entry"
  "acquireCache env w (entry\<lparr>Status := s\<rparr>) = acquireCache env w entry"
  by (simp_all add: acquireTx_def acquireCache_def fun_eq_iff split: option.splits)


subsection \<open>Running the small installation\<close>

lemmas ex_defs = exConfig_def exMetadata_def exEntry_def exDatabase_def exSyncWorld_def
  exCollab_def exApplyFails_def zeroStatus_def zeroApplyResponse_def exFailedTwice_def
  exAtMaximum_def exApp_def exRanEntry_def exWithApp_def exWithoutApp_def exSkipping_def exAlwaysSkips_def
  exReloadFails_def exHugeFrequency_def exTwoEntries_def exStatusWriteFails_def exStoreDown_def

lemmas op_defs = acquireTx_def acquireCache_def BeginTransaction_def Rollback_def Commit_def
  writeTx_def CreateSync_def GetSyncEntries_def setStatus_def UpdateSyncStatus_def GetAppTx_def
  CompleteTransaction_def callApply_def callReloadApp_def NewRepoCache_def CleanupCache_def
  recordEvent_def markFailed_def applyCallFor_def reloadCallFor_def syncAttempt_def
  storeStatus_def persistStatus_def AppReloadOptionMatched_def ErrTxDone_def Let_def

section \<open>The claims about the orchestrator\<close>

text \<open>
  C2, as the code has it. Whenever \<open>runSyncJob\<close> returns a status, for collaborators whose
  errors have a text: a status with an error has the failure count of the entry that was
  given to the run plus one, whatever that count was, and the state \<open>Disabled\<close> when the new
  count has reached the configured maximum and \<open>Failing\<close> otherwise; a status without an
  error has the failure count 0 and the state \<open>Enabled\<close>.
\<close>

theorem runSyncJob_failure_count:
  assumes "runSyncJob env cfg w inputTx entry dryRun checkCommitHash repoCache
             = (Inr (status, updatedApps), w1)"
    and "errorsHaveText env"
  shows "(Error status \<noteq> '''' \<longrightarrow>
            FailureCount status = FailureCount (Status entry) + 1 \<and>
            State status = (if MaxSyncFailureCount cfg \<le> FailureCount status
                            then ''Disabled'' else ''Failing'')) \<and>
         (Error status = '''' \<longrightarrow> FailureCount status = 0 \<and> State status = ''Enabled'')"
  using runSyncJob_rule [OF assms] by (simp add: followsRule_def)

theorem runSyncJob_failure_count_witness:
  "map_sum id (\<lambda>r. (Error (fst r), FailureCount (fst r), State (fst r)))
     (fst (runSyncJob exApplyFails exConfig exSyncWorld None exFailedTwice False True None))
     = Inr (''checkout failed'', 3, ''Disabled'') \<and>
   map_sum id (\<lambda>r. (Error (fst r), FailureCount (fst r), State (fst r)))
     (fst (runSyncJob exCollab exConfig exSyncWorld None exFailedTwice False True None))
     = Inr ('''', 0, ''Enabled'')"
proof -
  have text1: "errorsHaveText exApplyFails" and text2: "errorsHaveText exCollab"
    by (simp_all add: errorsHaveText_def exApplyFails_def exCollab_def)
  have "\<exists>st u w1. runSyncJob exApplyFails exConfig exSyncWorld None exFailedTwice False True None
                    = (Inr (st, u), w1) \<and> Error st = ''checkout failed''"
    by (simp add: runSyncJob.simps ex_defs op_defs)
  then obtain st u w1 where
    run1: "runSyncJob exApplyFails exConfig exSyncWorld None exFailedTwice False True None
             = (Inr (st, u), w1)"
    and err1: "Error st = ''checkout failed''"
    by blast
  have "\<exists>st u w1. runSyncJob exCollab exConfig exSyncWorld None exFailedTwice False True None
                    = (Inr (st, u), w1) \<and> Error st = ''''"
    by (simp add: runSyncJob.simps ex_defs op_defs)
  then obtain st' u' w1' where
    run2: "runSyncJob exCollab exConfig exSyncWorld None exFailedTwice False True None
             = (Inr (st', u'), w1')"
    and err2: "Error st' = ''''"
    by blast
  from runSyncJob_failure_count [OF run1 text1] err1
  have "FailureCount st = 3 \<and> State st = ''Disabled''"
    by (simp add: exFailedTwice_def exConfig_def zeroStatus_def)
  moreover from runSyncJob_failure_count [OF run2 text2] err2
  have "FailureCount st' = 0 \<and> State st' = ''Enabled''"
    by simp
  ultimately show ?thesis
    using run1 run2 err1 err2 by simp
qed

text \<open>
  C2, as stated, fails for an entry whose failure count has reached the configured maximum
  of 3: \<open>runSyncJob\<close> has no gate on the count (the gate is in the loop of the scheduler,
  and \<open>RunSync\<close> has none), the run is made, the apply fails, and the status returned has
  the failure count 4. The count is not capped at the maximum.
\<close>

theorem runSyncJob_count_exceeds_maximum:
  "MaxSyncFailureCount exConfig = 3 \<and>
   FailureCount (Status exAtMaximum) = 3 \<and>
   \<not> isl (fst (runSyncJob exApplyFails exConfig exSyncWorld None exAtMaximum False True None)) \<and>
   Error (fst (projr (fst
     (runSyncJob exApplyFails exConfig exSyncWorld None exAtMaximum False True None))))
     = ''checkout failed'' \<and>
   FailureCount (fst (projr (fst
     (runSyncJob exApplyFails exConfig exSyncWorld None exAtMaximum False True None)))) = 4 \<and>
   State (fst (projr (fst
     (runSyncJob exApplyFails exConfig exSyncWorld None exAtMaximum False True None))))
     = ''Disabled''"
proof -
  have "\<exists>st u w1. runSyncJob exApplyFails exConfig exSyncWorld None exAtMaximum False True None
                    = (Inr (st, u), w1) \<and>
                  Error st = ''checkout failed'' \<and> FailureCount st = 4 \<and>
                  State st = ''Disabled''"
    by (simp add: runSyncJob.simps ex_defs op_defs)
  then obtain st u w1 where
    "runSyncJob exApplyFails exConfig exSyncWorld None exAtMaximum False True None
       = (Inr (st, u), w1)"
    "Error st = ''checkout failed''" "FailureCount st = 4" "State st = ''Disabled''"
    by blast
  then show ?thesis
    by (simp add: exConfig_def exAtMaximum_def zeroStatus_def)
qed

text \<open>
  C1, as the code has it. A run that returns a status with an error returns no updated apps,
  and it leaves the committed contents of the store exactly as they were: the failure status
  is written through the new transaction, but \<open>CompleteTransaction\<close> is called only for a
  status without an error, and the deferred \<open>Rollback\<close> of line 597 drops the write when
  the function returns. The status and the failure count do not survive.
\<close>

theorem runSyncJob_failure_not_persisted:
  assumes "runSyncJob env cfg w inputTx entry dryRun checkCommitHash repoCache
             = (Inr (status, updatedApps), w1)"
    and "Error status \<noteq> ''''"
  shows "durable (db w1) = durable (db w) \<and> updatedApps = []"
  using runSyncJob_durable [OF assms(1)] runSyncJob_apps [OF assms] assms(2)
  by (simp add: succeeded_def)

text \<open>
  The run on the small installation with an apply that fails: the status returned has one
  failure; the transaction in use (0) is rolled back, a new one (1) is begun, the status is
  written through it, and it is rolled back in turn; the entry in the store still has no
  failure.
\<close>

theorem runSyncJob_failure_not_persisted_witness:
  "map_sum id (\<lambda>r. (Error (fst r), FailureCount (fst r), snd r))
     (fst (runSyncJob exApplyFails exConfig exSyncWorld None exEntry False True None))
     = Inr (''checkout failed'', 1, []) \<and>
   map withoutStatus (filter isTxEvent (journal
     (snd (runSyncJob exApplyFails exConfig exSyncWorld None exEntry False True None))))
     = [TxRolledBack 0, TxRolledBack 1, StatusUpdated 1 ''cl_syn_1'' zeroStatus, TxBegun 1,
        TxRolledBack 0, TxBegun 0] \<and>
   durable (db (snd (runSyncJob exApplyFails exConfig exSyncWorld None exEntry False True None)))
     = durable (db exSyncWorld) \<and>
   map (\<lambda>e. FailureCount (Status e)) (syncs (durable (db exSyncWorld))) = [0]"
proof -
  have returned:
    "map_sum id (\<lambda>r. (Error (fst r), FailureCount (fst r), snd r))
       (fst (runSyncJob exApplyFails exConfig exSyncWorld None exEntry False True None))
       = Inr (''checkout failed'', 1, [])"
    by (simp add: runSyncJob.simps ex_defs op_defs)
  have written:
    "map withoutStatus (filter isTxEvent (journal
       (snd (runSyncJob exApplyFails exConfig exSyncWorld None exEntry False True None))))
       = [TxRolledBack 0, TxRolledBack 1, StatusUpdated 1 ''cl_syn_1'' zeroStatus, TxBegun 1,
          TxRolledBack 0, TxBegun 0]"
    by (simp add: runSyncJob.simps ex_defs op_defs)
  have "\<exists>st u w1. runSyncJob exApplyFails exConfig exSyncWorld None exEntry False True None
                    = (Inr (st, u), w1) \<and> Error st \<noteq> ''''"
    by (simp add: runSyncJob.simps ex_defs op_defs)
  then obtain st u w1 where
    run: "runSyncJob exApplyFails exConfig exSyncWorld None exEntry False True None
            = (Inr (st, u), w1)"
    and err: "Error st \<noteq> ''''"
    by blast
  from runSyncJob_failure_not_persisted [OF run err] run
  have kept:
    "durable (db (snd (runSyncJob exApplyFails exConfig exSyncWorld None exEntry False True None)))
       = durable (db exSyncWorld)"
    by simp
  have stored: "map (\<lambda>e. FailureCount (Status e)) (syncs (durable (db exSyncWorld))) = [0]"
    by (simp add: ex_defs)
  from returned written kept stored show ?thesis by blast
qed

text \<open>
  C4. \<open>CreateSyncEntry\<close> begins a transaction, writes the new entry through it and runs the
  job once on that transaction with \<open>checkCommitHash\<close> true. When that run reports an
  error, either by returning one or by returning a status that carries one, the creation
  returns that error, and after the deferred rollback the committed contents of the store
  are what they were before the call: the write of \<open>CreateSync\<close> is gone with its
  transaction.
\<close>

theorem CreateSyncEntry_failed_run_discards:
  assumes "BeginTransaction env w = (Inr tx, w1)"
    and "newSyncEntry env cfg w1 path scheduled sync = Inr syncEntry"
    and "CreateSync env tx syncEntry w1 = (None, w2)"
    and "runSyncJob env cfg w2 (Some tx) syncEntry dryRun True None = (res, w3)"
    and "\<forall>st u. res = Inr (st, u) \<longrightarrow> Error st \<noteq> ''''"
  shows "CreateSyncEntry env cfg w path scheduled dryRun sync
           = (Inl (case res of Inl err \<Rightarrow> err | Inr r \<Rightarrow> Error (fst r)), Rollback tx w3) \<and>
         durable (db (Rollback tx w3)) = durable (db w)"
proof -
  have "\<not> succeeded (Some tx) res"
    by (simp add: succeeded_def)
  from runSyncJob_durable [OF assms(4) this] BeginTransaction_keeps [OF assms(1)]
    CreateSync_keeps [OF assms(3)]
  have "durable (db (Rollback tx w3)) = durable (db w)"
    by simp
  moreover have "CreateSyncEntry env cfg w path scheduled dryRun sync
           = (Inl (case res of Inl err \<Rightarrow> err | Inr r \<Rightarrow> Error (fst r)), Rollback tx w3)"
    using assms by (cases res) (auto simp: CreateSyncEntry_def)
  ultimately show ?thesis by simp
qed

theorem CreateSyncEntry_failed_run_discards_witness:
  "fst (CreateSyncEntry exApplyFails exConfig exSyncWorld ''github.com/org/apps/apply.ace''
          True False exMetadata)
     = Inl ''checkout failed'' \<and>
   durable (db (snd (CreateSyncEntry exApplyFails exConfig exSyncWorld
                       ''github.com/org/apps/apply.ace'' True False exMetadata)))
     = durable (db exSyncWorld)"
proof -
  have "\<exists>tx w1 syncEntry w2 st u w3.
          BeginTransaction exApplyFails exSyncWorld = (Inr tx, w1) \<and>
          newSyncEntry exApplyFails exConfig w1 ''github.com/org/apps/apply.ace'' True exMetadata
            = Inr syncEntry \<and>
          CreateSync exApplyFails tx syncEntry w1 = (None, w2) \<and>
          runSyncJob exApplyFails exConfig w2 (Some tx) syncEntry False True None
            = (Inr (st, u), w3) \<and>
          Error st = ''checkout failed''"
    by (simp add: runSyncJob.simps newSyncEntry_def ex_defs op_defs)
  then obtain tx w1 syncEntry w2 st u w3 where
    h1: "BeginTransaction exApplyFails exSyncWorld = (Inr tx, w1)" and
    h2: "newSyncEntry exApplyFails exConfig w1 ''github.com/org/apps/apply.ace'' True exMetadata
            = Inr syncEntry" and
    h3: "CreateSync exApplyFails tx syncEntry w1 = (None, w2)" and
    h4: "runSyncJob exApplyFails exConfig w2 (Some tx) syncEntry False True None
            = (Inr (st, u), w3)" and
    h5: "Error st = ''checkout failed''"
    by blast
  from h5 have "\<forall>st' u'. Inr (st, u) = Inr (st', u') \<longrightarrow> Error st' \<noteq> ''''"
    by simp
  from CreateSyncEntry_failed_run_discards [OF h1 h2 h3 h4 this] h5
  show ?thesis by simp
qed





subsection \<open>The scheduler\<close>

text \<open>Within the range of a 64-bit duration the product with a minute is the exact product.\<close>

lemma minutes_exact:
  assumes "0 \<le> n" and "n \<le> 153722867"
  shows "minutes n = n * 60000000000"
proof -
  from assms have "0 \<le> n * 60000000000" and "n * 60000000000 \<le> 153722867 * 60000000000"
    by simp_all
  then have "0 \<le> n * 60000000000 + 2 ^ 63" and "n * 60000000000 + 2 ^ 63 < (2 ^ 64 :: int)"
    by simp_all
  then have "(n * 60000000000 + 2 ^ 63) mod 2 ^ 64 = n * 60000000000 + 2 ^ 63"
    by (rule mod_pos_pos_trivial)
  then show ?thesis
    by (simp add: minutes_def int64_def)
qed

text \<open>An entry that passes the three guards is run; an entry that does not is passed over.\<close>

lemma runEntries_single_selected:
  assumes "\<not> notScheduled entry" and "\<not> notReady (timeNow env (clock w)) entry"
    and "\<not> failedTooOften cfg entry"
  shows "invocations w < invocations (runEntries env cfg w rc [entry])"
proof -
  obtain res w1 where
    run: "runSyncJob env cfg w None entry False True (Some rc) = (res, w1)"
    by (cases "runSyncJob env cfg w None entry False True (Some rc)")
  from runSyncJob_at_most_twice [OF run] have "invocations w < invocations w1"
    by simp
  with assms run show ?thesis
    by (cases res) (simp_all add: invocations_def)
qed

lemma runEntries_single_skipped:
  assumes "notScheduled entry \<or> notReady (timeNow env (clock w)) entry \<or> failedTooOften cfg entry"
  shows "invocations (runEntries env cfg w rc [entry]) = invocations w"
  using assms by (auto simp: invocations_def)

lemma runEntries_single:
  "invocations (runEntries env cfg w rc [entry]) = invocations w \<longleftrightarrow>
   notScheduled entry \<or> notReady (timeNow env (clock w)) entry \<or> failedTooOften cfg entry"
  using runEntries_single_selected [of entry env w cfg rc]
    runEntries_single_skipped [of entry env w cfg rc]
  by (metis less_irrefl)

text \<open>The loop over a list is the loop over its front followed by the loop over its back.\<close>

lemma runEntries_append:
  "runEntries env cfg w rc (xs @ ys) = runEntries env cfg (runEntries env cfg w rc xs) rc ys"
proof (induction xs arbitrary: w)
  case Nil
  then show ?case by simp
next
  case (Cons a xs)
  then show ?case
    by (simp split: prod.splits sum.splits)
qed

text \<open>
  C3, as the code has it. For an entry whose frequency is at most 153722867 minutes, the
  largest whose nanoseconds fit a 64-bit duration: in its turn of a scheduler tick the entry
  is passed over, that is \<open>runSyncJob\<close> is not entered, if and only if it is not scheduled,
  or its frequency is not positive, or it has run before and the time since is less than its
  frequency, or its failure count has reached the configured maximum. The state recorded in
  its status makes no difference.
\<close>

theorem scheduler_skip_rule:
  assumes "ScheduleFrequency (Metadata entry) \<le> 153722867"
  shows "(invocations (runEntries env cfg w rc [entry]) = invocations w \<longleftrightarrow>
            \<not> IsScheduled entry \<or>
            ScheduleFrequency (Metadata entry) \<le> 0 \<or>
            (LastExecutionTime (Status entry) \<noteq> 0 \<and>
             timeNow env (clock w) - LastExecutionTime (Status entry)
               < ScheduleFrequency (Metadata entry) * 60000000000) \<or>
            MaxSyncFailureCount cfg \<le> FailureCount (Status entry)) \<and>
         (invocations (runEntries env cfg w rc [entry\<lparr>Status := (Status entry)\<lparr>State := s\<rparr>\<rparr>])
            = invocations w \<longleftrightarrow>
          invocations (runEntries env cfg w rc [entry]) = invocations w)"
proof -
  have ready: "notReady now e \<longleftrightarrow>
                 LastExecutionTime (Status e) \<noteq> 0 \<and>
                 now - LastExecutionTime (Status e) < ScheduleFrequency (Metadata e) * 60000000000"
    if "0 < ScheduleFrequency (Metadata e)" "ScheduleFrequency (Metadata e) \<le> 153722867"
    for now e
    using that minutes_exact [of "ScheduleFrequency (Metadata e)"]
    by (auto simp: notReady_def)
  have rule: "invocations (runEntries env cfg w rc [e]) = invocations w \<longleftrightarrow>
            \<not> IsScheduled e \<or>
            ScheduleFrequency (Metadata e) \<le> 0 \<or>
            (LastExecutionTime (Status e) \<noteq> 0 \<and>
             timeNow env (clock w) - LastExecutionTime (Status e)
               < ScheduleFrequency (Metadata e) * 60000000000) \<or>
            MaxSyncFailureCount cfg \<le> FailureCount (Status e)"
    if "ScheduleFrequency (Metadata e) \<le> 153722867" for e
  proof (cases "0 < ScheduleFrequency (Metadata e)")
    case True
    from ready [OF True that] show ?thesis
      unfolding runEntries_single notScheduled_def failedTooOften_def by simp
  next
    case False
    then show ?thesis
      unfolding runEntries_single notScheduled_def by simp
  qed
  from rule [of entry] rule [of "entry\<lparr>Status := (Status entry)\<lparr>State := s\<rparr>\<rparr>"] assms
  show ?thesis by simp
qed

theorem scheduler_skip_rule_witness:
  "invocations (runEntries exCollab exConfig exWithApp 0 [exRanEntry]) = invocations exWithApp \<and>
   timeNow exCollab (clock exWithApp) - LastExecutionTime (Status exRanEntry)
     < ScheduleFrequency (Metadata exRanEntry) * 60000000000 \<and>
   invocations (runEntries exCollab exConfig exSyncWorld 0 [exEntry]) \<noteq> invocations exSyncWorld"
proof -
  have f1: "ScheduleFrequency (Metadata exRanEntry) \<le> 153722867"
    and f2: "ScheduleFrequency (Metadata exEntry) \<le> 153722867"
    by (simp_all add: exRanEntry_def exEntry_def exMetadata_def)
  have recent:
    "timeNow exCollab (clock exWithApp) - LastExecutionTime (Status exRanEntry)
       < ScheduleFrequency (Metadata exRanEntry) * 60000000000"
    by (simp add: ex_defs)
  have ran: "LastExecutionTime (Status exRanEntry) \<noteq> 0"
    by (simp add: ex_defs)
  from scheduler_skip_rule [OF f1, of exCollab exConfig exWithApp 0] recent ran
  have skipped:
    "invocations (runEntries exCollab exConfig exWithApp 0 [exRanEntry]) = invocations exWithApp"
    by blast
  have "\<not> (\<not> IsScheduled exEntry \<or>
            ScheduleFrequency (Metadata exEntry) \<le> 0 \<or>
            (LastExecutionTime (Status exEntry) \<noteq> 0 \<and>
             timeNow exCollab (clock exSyncWorld) - LastExecutionTime (Status exEntry)
               < ScheduleFrequency (Metadata exEntry) * 60000000000) \<or>
            MaxSyncFailureCount exConfig \<le> FailureCount (Status exEntry))"
    by (simp add: ex_defs)
  with scheduler_skip_rule [OF f2, of exCollab exConfig exSyncWorld 0]
  have "invocations (runEntries exCollab exConfig exSyncWorld 0 [exEntry])
          \<noteq> invocations exSyncWorld"
    by blast
  with skipped recent show ?thesis by blast
qed

text \<open>
  C3, as stated, fails for a frequency of 153722868 minutes: the product with \<open>time.Minute\<close>
  wraps around to a negative duration, the entry that ran 500 nanoseconds ago counts as due,
  and \<open>runSyncJob\<close> is entered although the time since the last run is less than the
  frequency.
\<close>

theorem scheduler_runs_entry_with_huge_frequency:
  "IsScheduled exHugeFrequency \<and>
   0 < ScheduleFrequency (Metadata exHugeFrequency) \<and>
   LastExecutionTime (Status exHugeFrequency) \<noteq> 0 \<and>
   timeNow exCollab (clock exWithApp) - LastExecutionTime (Status exHugeFrequency)
     < ScheduleFrequency (Metadata exHugeFrequency) * 60000000000 \<and>
   FailureCount (Status exHugeFrequency) < MaxSyncFailureCount exConfig \<and>
   invocations exWithApp < invocations (runEntries exCollab exConfig exWithApp 0 [exHugeFrequency])"
proof -
  have "\<not> notScheduled exHugeFrequency"
    by (simp add: notScheduled_def ex_defs)
  moreover have "\<not> notReady (timeNow exCollab (clock exWithApp)) exHugeFrequency"
    by (simp add: notReady_def minutes_def int64_def ex_defs)
  moreover have "\<not> failedTooOften exConfig exHugeFrequency"
    by (simp add: failedTooOften_def ex_defs)
  ultimately
  have "invocations exWithApp
          < invocations (runEntries exCollab exConfig exWithApp 0 [exHugeFrequency])"
    by (rule runEntries_single_selected)
  then show ?thesis
    by (simp add: ex_defs)
qed

subsection \<open>Failures in the loop of the scheduler\<close>

text \<open>A runner that has stopped stays stopped, whatever ticks follow.\<close>

lemma onTick_stopped: "fst rw = Stopped \<Longrightarrow> ((onTick env cfg) ^^ n) rw = rw"
  by (induction n) (simp_all add: onTick_def)

text \<open>The loop after an entry whose run returned an error.\<close>

lemma runEntries_error_continues:
  assumes "\<not> notScheduled entry" "\<not> notReady (timeNow env (clock wa)) entry"
    "\<not> failedTooOften cfg entry"
    "runSyncJob env cfg wa None entry False True (Some rc) = (Inl err, wb)"
  shows "runEntries env cfg wa rc (entry # rest)
       = runEntries env cfg
           (recordEvent (LogError (''Error running sync job '' @ SyncId entry) err) wb) rc rest"
  using assms by simp

text \<open>A tick whose entry list was loaded, and a tick whose entry list could not be loaded.\<close>

lemma runSyncJobs_loaded:
  assumes "BeginTransaction env w = (Inr tx, w1)"
    and "NewRepoCache env w1 = (Inr rc, w2)"
    and "GetSyncEntries env tx w2 = (Inr scheduleEntries, w3)"
  shows "runSyncJobs env cfg w
       = (None, Rollback tx (CleanupCache rc (runEntries env cfg w3 rc scheduleEntries)))"
  using assms by (simp add: runSyncJobs_def)

lemma runSyncJobs_load_failed:
  assumes "BeginTransaction env w = (Inr tx, w1)"
    and "NewRepoCache env w1 = (Inr rc, w2)"
    and "GetSyncEntries env tx w2 = (Inl err, w3)"
  shows "runSyncJobs env cfg w = (Some err, Rollback tx (CleanupCache rc w3))"
  using assms by (simp add: runSyncJobs_def)

text \<open>
  C8. Once the tick has its transaction and its cache. When the entry list is loaded, the
  tick returns no error whatever the runs of the entries return, the runner stays in its
  loop, and the loop over the entries is the loop over any front part followed by the loop
  over the rest: nothing that happens in the front part keeps the rest from its turn. An
  entry that is selected and whose run returns an error has the error logged, and the loop
  goes on with the next entry. When loading the entry list fails, the tick returns that
  error without entering \<open>runSyncJob\<close>, the runner logs it and stops, and no later tick
  changes anything.
\<close>

theorem scheduler_isolates_entry_failures:
  assumes "BeginTransaction env w = (Inr tx, w1)"
    and "NewRepoCache env w1 = (Inr rc, w2)"
    and "GetSyncEntries env tx w2 = (loaded, w3)"
  shows "(\<forall>scheduleEntries. loaded = Inr scheduleEntries \<longrightarrow>
            runSyncJobs env cfg w
              = (None, Rollback tx (CleanupCache rc (runEntries env cfg w3 rc scheduleEntries))) \<and>
            fst (onTick env cfg (Running, w)) = Running \<and>
            (\<forall>front rest. scheduleEntries = front @ rest \<longrightarrow>
               runEntries env cfg w3 rc scheduleEntries
                 = runEntries env cfg (runEntries env cfg w3 rc front) rc rest)) \<and>
         (\<forall>entry rest wa err wb.
            \<not> notScheduled entry \<and> \<not> notReady (timeNow env (clock wa)) entry \<and>
            \<not> failedTooOften cfg entry \<and>
            runSyncJob env cfg wa None entry False True (Some rc) = (Inl err, wb) \<longrightarrow>
            runEntries env cfg wa rc (entry # rest)
              = runEntries env cfg
                  (recordEvent (LogError (''Error running sync job '' @ SyncId entry) err) wb)
                  rc rest) \<and>
         (\<forall>err. loaded = Inl err \<longrightarrow>
            runSyncJobs env cfg w = (Some err, Rollback tx (CleanupCache rc w3)) \<and>
            invocations (snd (runSyncJobs env cfg w)) = invocations w \<and>
            onTick env cfg (Running, w)
              = (Stopped,
                 recordEvent (LogMessage ''Sync runner stopped'')
                   (recordEvent (LogError ''Error running sync'' err)
                      (Rollback tx (CleanupCache rc w3)))) \<and>
            (\<forall>n. ((onTick env cfg) ^^ n) (onTick env cfg (Running, w))
                   = onTick env cfg (Running, w)))"
proof (intro conjI allI impI)
  fix scheduleEntries
  assume "loaded = Inr scheduleEntries"
  with assms have ok:
    "runSyncJobs env cfg w
       = (None, Rollback tx (CleanupCache rc (runEntries env cfg w3 rc scheduleEntries)))"
    by (simp add: runSyncJobs_loaded)
  then show
    "runSyncJobs env cfg w
       = (None, Rollback tx (CleanupCache rc (runEntries env cfg w3 rc scheduleEntries)))" .
  from ok show "fst (onTick env cfg (Running, w)) = Running"
    by (simp add: onTick_def)
  fix front rest
  assume "scheduleEntries = front @ rest"
  then show "runEntries env cfg w3 rc scheduleEntries
               = runEntries env cfg (runEntries env cfg w3 rc front) rc rest"
    by (simp only: runEntries_append)
next
  fix entry rest wa err wb
  assume "\<not> notScheduled entry \<and> \<not> notReady (timeNow env (clock wa)) entry \<and>
          \<not> failedTooOften cfg entry \<and>
          runSyncJob env cfg wa None entry False True (Some rc) = (Inl err, wb)"
  then have "\<not> notScheduled entry" and "\<not> notReady (timeNow env (clock wa)) entry"
    and "\<not> failedTooOften cfg entry"
    and "runSyncJob env cfg wa None entry False True (Some rc) = (Inl err, wb)"
    by simp_all
  then show "runEntries env cfg wa rc (entry # rest)
               = runEntries env cfg
                   (recordEvent (LogError (''Error running sync job '' @ SyncId entry) err) wb)
                   rc rest"
    by (rule runEntries_error_continues)
next
  fix err
  assume "loaded = Inl err"
  with assms have failed:
    "runSyncJobs env cfg w = (Some err, Rollback tx (CleanupCache rc w3))"
    by (simp add: runSyncJobs_load_failed)
  then show "runSyncJobs env cfg w = (Some err, Rollback tx (CleanupCache rc w3))" .
  from failed BeginTransaction_keeps [OF assms(1)] NewRepoCache_keeps [OF assms(2)]
    GetSyncEntries_keeps [OF assms(3)]
  show "invocations (snd (runSyncJobs env cfg w)) = invocations w"
    by (simp add: invocations_def)
  from failed show stops:
    "onTick env cfg (Running, w)
       = (Stopped,
          recordEvent (LogMessage ''Sync runner stopped'')
            (recordEvent (LogError ''Error running sync'' err)
               (Rollback tx (CleanupCache rc w3))))"
    by (simp add: onTick_def)
  fix n
  from stops have "fst (onTick env cfg (Running, w)) = Stopped"
    by simp
  then show "((onTick env cfg) ^^ n) (onTick env cfg (Running, w)) = onTick env cfg (Running, w)"
    by (rule onTick_stopped)
qed

text \<open>
  A tick over two entries on a store whose status writes fail: both runs return an error,
  both errors are logged, both entries have their run, and the tick returns no error. A tick
  on a store whose entry list cannot be loaded: the tick returns the error, no run is made,
  and the runner has stopped after the first of three ticks.
\<close>

theorem scheduler_isolates_entry_failures_witness:
  "fst (runSyncJobs exStatusWriteFails exConfig exTwoEntries) = None \<and>
   marks (snd (runSyncJobs exStatusWriteFails exConfig exTwoEntries))
     = [Invoked ''cl_syn_2'' True, Invoked ''cl_syn_1'' True] \<and>
   errorsLogged (snd (runSyncJobs exStatusWriteFails exConfig exTwoEntries))
     = [LogError ''Error running sync job cl_syn_2'' ''database is locked'',
        LogError ''Error running sync job cl_syn_1'' ''database is locked''] \<and>
   fst (onTick exStatusWriteFails exConfig (Running, exTwoEntries)) = Running \<and>
   fst (runSyncJobs exStoreDown exConfig exTwoEntries) = Some ''database is locked'' \<and>
   invocations (snd (runSyncJobs exStoreDown exConfig exTwoEntries)) = 0 \<and>
   fst (onTick exStoreDown exConfig (Running, exTwoEntries)) = Stopped \<and>
   (onTick exStoreDown exConfig ^^ 3) (Running, exTwoEntries)
     = onTick exStoreDown exConfig (Running, exTwoEntries)"
proof -
  have "\<exists>tx w1 rc w2 w3 wb.
          BeginTransaction exStatusWriteFails exTwoEntries = (Inr tx, w1) \<and>
          NewRepoCache exStatusWriteFails w1 = (Inr rc, w2) \<and>
          GetSyncEntries exStatusWriteFails tx w2
            = (Inr [exEntry, exEntry\<lparr>SyncId := ''cl_syn_2''\<rparr>], w3) \<and>
          \<not> notReady (timeNow exStatusWriteFails (clock w3)) exEntry \<and>
          runSyncJob exStatusWriteFails exConfig w3 None exEntry False True (Some rc)
            = (Inl ''database is locked'', wb) \<and>
          marks (runEntries exStatusWriteFails exConfig
                   (recordEvent (LogError (''Error running sync job '' @ SyncId exEntry)
                                   ''database is locked'') wb)
                   rc [exEntry\<lparr>SyncId := ''cl_syn_2''\<rparr>])
            = [Invoked ''cl_syn_2'' True, Invoked ''cl_syn_1'' True] \<and>
          errorsLogged (runEntries exStatusWriteFails exConfig
                   (recordEvent (LogError (''Error running sync job '' @ SyncId exEntry)
                                   ''database is locked'') wb)
                   rc [exEntry\<lparr>SyncId := ''cl_syn_2''\<rparr>])
            = [LogError ''Error running sync job cl_syn_2'' ''database is locked'',
               LogError ''Error running sync job cl_syn_1'' ''database is locked'']"
    by (simp add: runSyncJob.simps notScheduled_def notReady_def failedTooOften_def marks_def
          errorsLogged_def ex_defs op_defs)
  then obtain tx w1 rc w2 w3 wb where
    h1: "BeginTransaction exStatusWriteFails exTwoEntries = (Inr tx, w1)" and
    h2: "NewRepoCache exStatusWriteFails w1 = (Inr rc, w2)" and
    h3: "GetSyncEntries exStatusWriteFails tx w2
           = (Inr [exEntry, exEntry\<lparr>SyncId := ''cl_syn_2''\<rparr>], w3)" and
    ready: "\<not> notReady (timeNow exStatusWriteFails (clock w3)) exEntry" and
    run: "runSyncJob exStatusWriteFails exConfig w3 None exEntry False True (Some rc)
            = (Inl ''database is locked'', wb)" and
    entered: "marks (runEntries exStatusWriteFails exConfig
                   (recordEvent (LogError (''Error running sync job '' @ SyncId exEntry)
                                   ''database is locked'') wb)
                   rc [exEntry\<lparr>SyncId := ''cl_syn_2''\<rparr>])
            = [Invoked ''cl_syn_2'' True, Invoked ''cl_syn_1'' True]" and
    logged: "errorsLogged (runEntries exStatusWriteFails exConfig
                   (recordEvent (LogError (''Error running sync job '' @ SyncId exEntry)
                                   ''database is locked'') wb)
                   rc [exEntry\<lparr>SyncId := ''cl_syn_2''\<rparr>])
            = [LogError ''Error running sync job cl_syn_2'' ''database is locked'',
               LogError ''Error running sync job cl_syn_1'' ''database is locked'']"
    by blast
  have scheduled: "\<not> notScheduled exEntry" and below: "\<not> failedTooOften exConfig exEntry"
    by (simp_all add: notScheduled_def failedTooOften_def ex_defs)
  note tick = scheduler_isolates_entry_failures [OF h1 h2 h3, of exConfig]
  from tick have returned:
    "runSyncJobs exStatusWriteFails exConfig exTwoEntries
       = (None, Rollback tx (CleanupCache rc
            (runEntries exStatusWriteFails exConfig w3 rc
               [exEntry, exEntry\<lparr>SyncId := ''cl_syn_2''\<rparr>])))"
    by blast
  from tick have running:
    "fst (onTick exStatusWriteFails exConfig (Running, exTwoEntries)) = Running"
    by blast
  from tick scheduled ready below run have continued:
    "runEntries exStatusWriteFails exConfig w3 rc [exEntry, exEntry\<lparr>SyncId := ''cl_syn_2''\<rparr>]
       = runEntries exStatusWriteFails exConfig
           (recordEvent (LogError (''Error running sync job '' @ SyncId exEntry)
                           ''database is locked'') wb)
           rc [exEntry\<lparr>SyncId := ''cl_syn_2''\<rparr>]"
    by blast
  have outer:
    "marks (Rollback t (CleanupCache c x)) = marks x"
    "errorsLogged (Rollback t (CleanupCache c x)) = errorsLogged x" for t c x
    by (simp_all add: errorsLogged_def marks_def Rollback_def CleanupCache_def recordEvent_def)
  have first:
    "fst (runSyncJobs exStatusWriteFails exConfig exTwoEntries) = None \<and>
     marks (snd (runSyncJobs exStatusWriteFails exConfig exTwoEntries))
       = [Invoked ''cl_syn_2'' True, Invoked ''cl_syn_1'' True] \<and>
     errorsLogged (snd (runSyncJobs exStatusWriteFails exConfig exTwoEntries))
       = [LogError ''Error running sync job cl_syn_2'' ''database is locked'',
          LogError ''Error running sync job cl_syn_1'' ''database is locked'']"
    by (simp only: returned continued fst_conv snd_conv outer entered logged simp_thms)
  have "\<exists>tx w1 rc w2 w3.
          BeginTransaction exStoreDown exTwoEntries = (Inr tx, w1) \<and>
          NewRepoCache exStoreDown w1 = (Inr rc, w2) \<and>
          GetSyncEntries exStoreDown tx w2 = (Inl ''database is locked'', w3)"
    by (simp add: ex_defs op_defs)
  then obtain tx' w1' rc' w2' w3' where
    k1: "BeginTransaction exStoreDown exTwoEntries = (Inr tx', w1')" and
    k2: "NewRepoCache exStoreDown w1' = (Inr rc', w2')" and
    k3: "GetSyncEntries exStoreDown tx' w2' = (Inl ''database is locked'', w3')"
    by blast
  note down = scheduler_isolates_entry_failures [OF k1 k2 k3, of exConfig]
  have start: "invocations exTwoEntries = 0"
    by (simp add: invocations_def marks_def exTwoEntries_def)
  from down have failed:
    "runSyncJobs exStoreDown exConfig exTwoEntries
       = (Some ''database is locked'', Rollback tx' (CleanupCache rc' w3'))"
    by blast
  from down have quiet:
    "invocations (snd (runSyncJobs exStoreDown exConfig exTwoEntries))
       = invocations exTwoEntries"
    by blast
  from down have stopped:
    "onTick exStoreDown exConfig (Running, exTwoEntries)
       = (Stopped,
          recordEvent (LogMessage ''Sync runner stopped'')
            (recordEvent (LogError ''Error running sync'' ''database is locked'')
               (Rollback tx' (CleanupCache rc' w3'))))"
    by blast
  from down have later:
    "(onTick exStoreDown exConfig ^^ 2) (onTick exStoreDown exConfig (Running, exTwoEntries))
       = onTick exStoreDown exConfig (Running, exTwoEntries)"
    by blast
  have "(onTick exStoreDown exConfig ^^ 3) (Running, exTwoEntries)
          = (onTick exStoreDown exConfig ^^ 2)
              (onTick exStoreDown exConfig (Running, exTwoEntries))"
    by (simp only: numeral_3_eq_3 numeral_2_eq_2 funpow.simps funpow_swap1 o_apply id_apply)
  with later have three:
    "(onTick exStoreDown exConfig ^^ 3) (Running, exTwoEntries)
       = onTick exStoreDown exConfig (Running, exTwoEntries)"
    by simp
  from failed have "fst (runSyncJobs exStoreDown exConfig exTwoEntries) = Some ''database is locked''"
    by simp
  moreover from quiet start
  have "invocations (snd (runSyncJobs exStoreDown exConfig exTwoEntries)) = 0"
    by simp
  moreover from stopped
  have "fst (onTick exStoreDown exConfig (Running, exTwoEntries)) = Stopped"
    by simp
  ultimately show ?thesis
    using first running three by blast
qed

end
